theory Spec2Isabelle
  imports Complex_Main "HOL-Library.Signed_Division"
begin

section \<open>The scene state of emotional-canvas\<close>

text \<open>
  The development embeds the interactive core of \<^verbatim>\<open>Scene\<close> (the React component in
  \<^verbatim>\<open>src/ui-helpers.js\<close>, lines 290-929) and \<^verbatim>\<open>updateRGBDisplay\<close> (lines 70-127).

  Conventions of the embedding:
  \<^item> a JavaScript number is a \<open>real\<close> (no rounding of doubles is modelled); a colour
    channel, which the code only ever produces with \<^verbatim>\<open>Math.floor\<close> and \<^verbatim>\<open>%\<close> from
    integers, is an \<open>int\<close>;
  \<^item> \<^verbatim>\<open>performance.now()\<close> is the argument \<open>now\<close> of every handler that reads the clock;
  \<^item> the \<^verbatim>\<open>useState\<close> cells and refs of the component are the fields of the record
    \<open>scene\<close>; a setter is a record update, a handler is a function from scene to scene;
  \<^item> \<^verbatim>\<open>a % b\<close> is the truncating remainder \<open>smod\<close> (the sign follows the dividend).
\<close>

type_synonym vec3 = "real \<times> real \<times> real"

text \<open>The object \<^verbatim>\<open>{ r, g, b, a }\<close> of \<^verbatim>\<open>globalRGB\<close>; the fields are spelled out
  because one-letter constants would capture the variables of every later statement.\<close>

record rgba =
  red :: int
  green :: int
  blue :: int
  alpha :: int

text \<open>One entry \<^verbatim>\<open>{ isHolding, startTime }\<close> of \<^verbatim>\<open>keyHoldState\<close>. The field
  \<^verbatim>\<open>isHolding\<close> is named \<open>keyIsHolding\<close> here, the name \<open>isHolding\<close> being taken by the
  pointer session's state cell.\<close>

record key_hold =
  keyIsHolding :: bool
  startTime :: real

text \<open>The four keys \<^verbatim>\<open>"1" | "2" | "3" | "4"\<close> that index \<^verbatim>\<open>keyHoldState\<close>.\<close>

datatype channel = Key1 | Key2 | Key3 | Key4

record arrow_keys =
  up :: bool
  down :: bool
  left :: bool
  right :: bool

text \<open>The two geometry classes the scene builds: \<^verbatim>\<open>new THREE.BoxGeometry(w, h, d)\<close> and
  \<^verbatim>\<open>new RoundedBoxGeometry(w, h, d, segments, radius)\<close>.\<close>

datatype geometry =
  BoxGeometry real real real
| RoundedBoxGeometry real real real nat real

text \<open>A \<^verbatim>\<open>THREE.Mesh\<close> as far as the scene sets it: geometry, position, the material's
  colour and opacity, and the \<^verbatim>\<open>userData\<close> fields.\<close>

record mesh =
  geometry :: geometry
  meshPosition :: vec3
  color :: vec3
  opacity :: real
  spawnTime :: "real option"
  baseY :: "real option"
  isPreview :: bool

text \<open>The camera's orientation is only ever written by \<^verbatim>\<open>camera.lookAt(target)\<close>, which
  derives it from the eye position at the time of the call and the target; it is kept as
  that pair.\<close>

datatype orientation = LookAt vec3 vec3

record camera =
  position :: vec3
  orientation :: orientation

record scene =
  isHolding :: bool
  holdStartTime :: real
  holdStartPosition :: "vec3 option"
  isSpacebarHeld :: bool
  maxRoundnessAchieved :: real
  arrowKeys :: arrow_keys
  globalRGB :: rgba
  keyHoldState :: "channel \<Rightarrow> key_hold"
  spawnedCubes :: "mesh list"
  previewRef :: "mesh option"
  sceneCamera :: camera
  audioVolume :: "real option"
  displayExists :: bool
  rgbPills :: "rgba option"

text \<open>\<open>audioVolume\<close> is the volume of \<^verbatim>\<open>positionalAudioRef.current\<close> (\<open>None\<close> while the
  ref is null); \<open>displayExists\<close> says whether the module-level \<^verbatim>\<open>rgbDisplay\<close> is set and
  \<open>rgbPills\<close> holds the four numbers last written into the pills.

  The initial values of the state cells (lines 303-328), the camera as the first effect
  places it (lines 332-333), a positional audio whose volume has not been set by a frame yet
  (three.js starts a gain at 1), and a display element that exists.\<close>

definition initialScene :: scene where
  "initialScene =
     \<lparr> isHolding = False, holdStartTime = 0, holdStartPosition = None,
       isSpacebarHeld = False, maxRoundnessAchieved = 0,
       arrowKeys = \<lparr> up = False, down = False, left = False, right = False \<rparr>,
       globalRGB = \<lparr> red = 255, green = 255, blue = 255, alpha = 255 \<rparr>,
       keyHoldState = (\<lambda>_. \<lparr> keyIsHolding = False, startTime = 0 \<rparr>),
       spawnedCubes = [], previewRef = None,
       sceneCamera = \<lparr> position = (30, 50, 200), orientation = LookAt (30, 50, 200) (0, 10, 0) \<rparr>,
       audioVolume = Some 1, displayExists = True, rgbPills = None \<rparr>"

section \<open>Keyboard handlers and the colour channels\<close>

text \<open>The test \<^verbatim>\<open>event.key === "1" || ... || event.key === "4"\<close> followed by the cast
  \<^verbatim>\<open>event.key as "1" | "2" | "3" | "4"\<close>.\<close>

definition channelOfKey :: "string \<Rightarrow> channel option" where
  "channelOfKey key =
     (if key = ''1'' then Some Key1
      else if key = ''2'' then Some Key2
      else if key = ''3'' then Some Key3
      else if key = ''4'' then Some Key4
      else None)"

text \<open>\<^verbatim>\<open>Math.floor((holdDuration / maxHold) * 255)\<close> with \<^verbatim>\<open>maxHold = 3000\<close>, as it is
  written five times (lines 88, 93, 98, 103 and 535).\<close>

definition colorChange :: "real \<Rightarrow> int" where
  "colorChange holdDuration = \<lfloor>(holdDuration / 3000) * 255\<rfloor>"

text \<open>The arrow and spacebar part that \<^verbatim>\<open>handleKeyDown\<close> and \<^verbatim>\<open>handleKeyUp\<close> share up
  to the boolean they store (lines 475-486 and 510-521).\<close>

definition setArrowAndSpace :: "string \<Rightarrow> bool \<Rightarrow> scene \<Rightarrow> scene" where
  "setArrowAndSpace key v st =
     (let st1 = (if key = ''ArrowUp'' then st\<lparr>arrowKeys := (arrowKeys st)\<lparr>up := v\<rparr>\<rparr> else st);
          st2 = (if key = ''ArrowDown'' then st1\<lparr>arrowKeys := (arrowKeys st1)\<lparr>down := v\<rparr>\<rparr> else st1);
          st3 = (if key = ''ArrowLeft'' then st2\<lparr>arrowKeys := (arrowKeys st2)\<lparr>left := v\<rparr>\<rparr> else st2);
          st4 = (if key = ''ArrowRight'' then st3\<lparr>arrowKeys := (arrowKeys st3)\<lparr>right := v\<rparr>\<rparr> else st3)
      in if key = '' '' \<or> key = ''Spacebar'' then st4\<lparr>isSpacebarHeld := v\<rparr> else st4)"

text \<open>\<^verbatim>\<open>handleKeyDown\<close> (lines 474-507). A channel key starts a hold only when the
  channel is not holding yet; otherwise the updater returns \<^verbatim>\<open>prev\<close>.\<close>

definition handleKeyDown :: "string \<Rightarrow> real \<Rightarrow> scene \<Rightarrow> scene" where
  "handleKeyDown key now st =
     (let st' = setArrowAndSpace key True st
      in case channelOfKey key of
           None \<Rightarrow> st'
         | Some c \<Rightarrow>
             if \<not> keyIsHolding (keyHoldState st' c)
             then st'\<lparr>keyHoldState :=
                        (keyHoldState st')(c := \<lparr> keyIsHolding = True, startTime = now \<rparr>)\<rparr>
             else st')"

text \<open>The updater given to \<^verbatim>\<open>setGlobalRGB\<close> (lines 537-549).\<close>

definition commitChannel :: "channel \<Rightarrow> int \<Rightarrow> rgba \<Rightarrow> rgba" where
  "commitChannel c k currentRGB =
     (case c of
        Key1 \<Rightarrow> currentRGB\<lparr>red := (red currentRGB + k) smod 256\<rparr>
      | Key2 \<Rightarrow> currentRGB\<lparr>green := (green currentRGB + k) smod 256\<rparr>
      | Key3 \<Rightarrow> currentRGB\<lparr>blue := (blue currentRGB + k) smod 256\<rparr>
      | Key4 \<Rightarrow> currentRGB\<lparr>alpha := (alpha currentRGB + k) smod 256\<rparr>)"

text \<open>\<^verbatim>\<open>handleKeyUp\<close> (lines 509-557). The channel part reads \<^verbatim>\<open>prev[key].startTime\<close>
  whatever \<^verbatim>\<open>prev[key].isHolding\<close> is: there is no guard on the flag.\<close>

definition handleKeyUp :: "string \<Rightarrow> real \<Rightarrow> scene \<Rightarrow> scene" where
  "handleKeyUp key now st =
     (let st' = setArrowAndSpace key False st
      in case channelOfKey key of
           None \<Rightarrow> st'
         | Some c \<Rightarrow>
             (let holdDuration = now - startTime (keyHoldState st' c);
                  k = colorChange holdDuration
              in st'\<lparr>globalRGB := commitChannel c k (globalRGB st'),
                     keyHoldState :=
                       (keyHoldState st')(c := \<lparr> keyIsHolding = False, startTime = 0 \<rparr>)\<rparr>))"

text \<open>The value of one channel read out of \<^verbatim>\<open>globalRGB\<close>.\<close>

definition channelValue :: "channel \<Rightarrow> rgba \<Rightarrow> int" where
  "channelValue c rgb =
     (case c of Key1 \<Rightarrow> red rgb | Key2 \<Rightarrow> green rgb | Key3 \<Rightarrow> blue rgb | Key4 \<Rightarrow> alpha rgb)"

text \<open>The preview value of one channel in \<^verbatim>\<open>updateRGBDisplay\<close> (lines 78-105): the
  committed value, replaced while the key is held. The four blocks of the source differ only
  in the channel; each reads \<^verbatim>\<open>performance.now()\<close>, here the one argument \<open>now\<close>.\<close>

definition previewChannel :: "real \<Rightarrow> rgba \<Rightarrow> (channel \<Rightarrow> key_hold) \<Rightarrow> channel \<Rightarrow> int" where
  "previewChannel now rgb holds c =
     (if keyIsHolding (holds c)
      then (let holdDuration = now - startTime (holds c)
            in (channelValue c rgb + colorChange holdDuration) smod 256)
      else channelValue c rgb)"

text \<open>\<^verbatim>\<open>updateRGBDisplay\<close> (lines 70-127): nothing when the display element is missing,
  otherwise the four numbers written into the pills.\<close>

definition updateRGBDisplay :: "bool \<Rightarrow> real \<Rightarrow> rgba \<Rightarrow> (channel \<Rightarrow> key_hold) \<Rightarrow> rgba option" where
  "updateRGBDisplay rgbDisplay now rgb holds =
     (if rgbDisplay
      then Some \<lparr> red = previewChannel now rgb holds Key1,
                  green = previewChannel now rgb holds Key2,
                  blue = previewChannel now rgb holds Key3,
                  alpha = previewChannel now rgb holds Key4 \<rparr>
      else None)"

section \<open>The three.js operations the scene calls\<close>

text \<open>
  These are library functions, written here as three.js defines them over the reals:
  \<^verbatim>\<open>Vector3.subVectors\<close>, \<^verbatim>\<open>Vector3.add\<close>, \<^verbatim>\<open>Vector3.distanceTo\<close>,
  \<^verbatim>\<open>Spherical.setFromVector3\<close>, \<^verbatim>\<open>Vector3.setFromSpherical\<close>, \<^verbatim>\<open>Plane\<close> and
  \<^verbatim>\<open>Ray.intersectPlane\<close>.
\<close>

definition subVectors :: "vec3 \<Rightarrow> vec3 \<Rightarrow> vec3" where
  "subVectors p q =
     (case p of (px, py, pz) \<Rightarrow> case q of (qx, qy, qz) \<Rightarrow> (px - qx, py - qy, pz - qz))"

definition addVectors :: "vec3 \<Rightarrow> vec3 \<Rightarrow> vec3" where
  "addVectors p q =
     (case p of (px, py, pz) \<Rightarrow> case q of (qx, qy, qz) \<Rightarrow> (px + qx, py + qy, pz + qz))"

definition dot :: "vec3 \<Rightarrow> vec3 \<Rightarrow> real" where
  "dot p q =
     (case p of (px, py, pz) \<Rightarrow> case q of (qx, qy, qz) \<Rightarrow> px * qx + py * qy + pz * qz)"

definition distanceTo :: "vec3 \<Rightarrow> vec3 \<Rightarrow> real" where
  "distanceTo p q = (let d = subVectors p q in sqrt (dot d d))"

text \<open>\<^verbatim>\<open>Math.atan2(y, x)\<close> (signed zeros are not modelled).\<close>

definition atan2 :: "real \<Rightarrow> real \<Rightarrow> real" where
  "atan2 y x =
     (if 0 < x then arctan (y / x)
      else if x < 0 then (if 0 \<le> y then arctan (y / x) + pi else arctan (y / x) - pi)
      else if 0 < y then pi / 2
      else if y < 0 then - (pi / 2)
      else 0)"

record spherical =
  radius :: real
  phi :: real
  theta :: real

text \<open>\<^verbatim>\<open>Spherical.setFromVector3\<close>: the radius is the length, the polar angle \<open>phi\<close> is
  measured from the positive y axis, the azimuth \<open>theta\<close> around it; a zero vector gives
  both angles 0.\<close>

definition setFromVector3 :: "vec3 \<Rightarrow> spherical" where
  "setFromVector3 v =
     (case v of (x, y, z) \<Rightarrow>
        (let rad = sqrt (x * x + y * y + z * z)
         in if rad = 0 then \<lparr> radius = rad, phi = 0, theta = 0 \<rparr>
            else \<lparr> radius = rad,
                   phi = arccos (max (- 1) (min 1 (y / rad))),
                   theta = atan2 x z \<rparr>))"

text \<open>\<^verbatim>\<open>Vector3.setFromSpherical\<close>.\<close>

definition setFromSpherical :: "spherical \<Rightarrow> vec3" where
  "setFromSpherical s =
     (let sinPhiRadius = sin (phi s) * radius s
      in (sinPhiRadius * sin (theta s), cos (phi s) * radius s, sinPhiRadius * cos (theta s)))"

text \<open>A \<^verbatim>\<open>THREE.Plane(normal, constant)\<close> is the set of points \<open>p\<close> with
  \<open>normal \<cdot> p + constant = 0\<close>; a \<^verbatim>\<open>THREE.Ray\<close> has an origin and a direction.\<close>

record plane =
  normal :: vec3
  planeConstant :: real

record ray =
  origin :: vec3
  direction :: vec3

text \<open>\<^verbatim>\<open>Ray.distanceToPlane\<close> and \<^verbatim>\<open>Ray.intersectPlane\<close>: \<open>None\<close> is the \<^verbatim>\<open>null\<close> of a
  ray that is parallel to the plane and off it, or that points away from it.\<close>

definition distanceToPlane :: "ray \<Rightarrow> plane \<Rightarrow> real option" where
  "distanceToPlane ry pl =
     (let denominator = dot (normal pl) (direction ry)
      in if denominator = 0
         then (if dot (normal pl) (origin ry) + planeConstant pl = 0 then Some 0 else None)
         else (let t = - (dot (origin ry) (normal pl) + planeConstant pl) / denominator
               in if 0 \<le> t then Some t else None))"

definition intersectPlane :: "ray \<Rightarrow> plane \<Rightarrow> vec3 option" where
  "intersectPlane ry pl =
     (case distanceToPlane ry pl of
        None \<Rightarrow> None
      | Some t \<Rightarrow>
          (case origin ry of (ox, oy, oz) \<Rightarrow> case direction ry of (dx, dy, dz) \<Rightarrow>
             Some (ox + dx * t, oy + dy * t, oz + dz * t)))"

section \<open>Pointer handlers and the spawned cube\<close>

text \<open>\<^verbatim>\<open>handleMouseDown\<close> (lines 597-622). \<open>intersects\<close> is the list of points that
  \<^verbatim>\<open>raycaster.intersectObject(water)\<close> returns, nearest first, and \<open>ry\<close> is
  \<^verbatim>\<open>raycaster.ray\<close> after \<^verbatim>\<open>setFromCamera\<close>. The fallback plane is
  \<^verbatim>\<open>new THREE.Plane(new THREE.Vector3(0, 1, 0), 0)\<close>.\<close>

definition handleMouseDown :: "int \<Rightarrow> real \<Rightarrow> vec3 list \<Rightarrow> ray \<Rightarrow> scene \<Rightarrow> scene" where
  "handleMouseDown button now intersects ry st =
     (if button \<noteq> 0 then st
      else
        (let st' = st\<lparr>isHolding := True, holdStartTime := now, maxRoundnessAchieved := 0\<rparr>
         in case intersects of
              p # _ \<Rightarrow> st'\<lparr>holdStartPosition := Some p\<rparr>
            | [] \<Rightarrow>
                (let pl = \<lparr> normal = (0, 1, 0), planeConstant = 0 \<rparr>
                 in case intersectPlane ry pl of
                      Some intersectionPoint \<Rightarrow> st'\<lparr>holdStartPosition := Some intersectionPoint\<rparr>
                    | None \<Rightarrow> st'\<lparr>holdStartPosition := Some (0, 0, 0)\<rparr>)))"

text \<open>The geometry of a cube or of the preview (lines 685-694 and 843-852): a plain box
  when the roundness is not positive, otherwise a rounded box with 8 segments and the radius
  capped at half the size.\<close>

definition boxGeometry :: "real \<Rightarrow> real \<Rightarrow> geometry" where
  "boxGeometry sz roundness =
     (if 0 < roundness
      then RoundedBoxGeometry sz sz sz 8 (min roundness (sz / 2))
      else BoxGeometry sz sz sz)"

text \<open>The edge length a geometry was built with (its \<^verbatim>\<open>width\<close> parameter).\<close>

fun geometrySize :: "geometry \<Rightarrow> real" where
  "geometrySize (BoxGeometry w h d) = w"
| "geometrySize (RoundedBoxGeometry w h d segments r) = w"

text \<open>The corner radius a geometry was built with (the \<^verbatim>\<open>radius\<close> parameter of a rounded
  box); a plain box has none.\<close>

fun geometryRoundness :: "geometry \<Rightarrow> real" where
  "geometryRoundness (BoxGeometry w h d) = 0"
| "geometryRoundness (RoundedBoxGeometry w h d segments r) = r"

text \<open>The colour \<^verbatim>\<open>new THREE.Color(r / 255, g / 255, b / 255)\<close>.\<close>

definition colorOf :: "rgba \<Rightarrow> vec3" where
  "colorOf rgb = (real_of_int (red rgb) / 255, real_of_int (green rgb) / 255,
                  real_of_int (blue rgb) / 255)"

text \<open>\<^verbatim>\<open>spawnCube\<close> (lines 679-715); its parameter \<^verbatim>\<open>size\<close> is \<open>sz\<close>.\<close>

definition spawnCube :: "vec3 \<Rightarrow> real \<Rightarrow> real \<Rightarrow> real \<Rightarrow> scene \<Rightarrow> scene" where
  "spawnCube pos sz roundness now st =
     (case pos of (px, py, pz) \<Rightarrow>
        (let cube = \<lparr> geometry = boxGeometry sz roundness,
                      meshPosition = (px, py + sz / 2, pz),
                      color = colorOf (globalRGB st),
                      opacity = real_of_int (alpha (globalRGB st)) / 255,
                      spawnTime = Some (now * 0.001),
                      baseY = Some (py + sz / 2),
                      isPreview = False \<rparr>
         in st\<lparr>spawnedCubes := spawnedCubes st @ [cube]\<rparr>))"

text \<open>The constant \<^verbatim>\<open>size\<close> of \<^verbatim>\<open>handleMouseUp\<close> (lines 627-634).\<close>

definition releaseSize :: "real \<Rightarrow> scene \<Rightarrow> real" where
  "releaseSize now st =
     (let holdDuration = now - holdStartTime st;
          minSize = 5; maxSize = 50; maxHold = 3000;
          normalizedHold = min holdDuration maxHold / maxHold
      in minSize + (maxSize - minSize) * normalizedHold)"

text \<open>\<^verbatim>\<open>handleMouseUp\<close> (lines 624-640).\<close>

definition handleMouseUp :: "int \<Rightarrow> real \<Rightarrow> scene \<Rightarrow> scene" where
  "handleMouseUp button now st =
     (if button \<noteq> 0 \<or> \<not> isHolding st then st
      else
        (let st' = st\<lparr>isHolding := False\<rparr>;
             roundness = maxRoundnessAchieved st
         in case holdStartPosition st of
              Some pos \<Rightarrow> spawnCube pos (releaseSize now st) roundness now st'
            | None \<Rightarrow> st'))"

section \<open>The frame callback\<close>

text \<open>The audio block of \<^verbatim>\<open>useFrame\<close> (lines 722-737): the value handed to
  \<^verbatim>\<open>setVolume\<close> for a camera at the given distance from the target.\<close>

definition appliedVolume :: "real \<Rightarrow> real" where
  "appliedVolume distance =
     (let minDistance = 40; maxDistance = 1000;
          normalizedDistance =
            max 0 (min 1 ((distance - minDistance) / (maxDistance - minDistance)));
          volume = 1.0 - normalizedDistance * 0.9
      in max 0.2 (min 1.0 volume))"

text \<open>The fixed target \<^verbatim>\<open>new THREE.Vector3(0, 10, 0)\<close> of the frame callback (line 720).\<close>

definition target :: vec3 where
  "target = (0, 10, 0)"

definition frameAudio :: "scene \<Rightarrow> scene" where
  "frameAudio st =
     (case audioVolume st of
        None \<Rightarrow> st
      | Some _ \<Rightarrow>
          st\<lparr>audioVolume := Some (appliedVolume (distanceTo (position (sceneCamera st)) target))\<rparr>)"

text \<open>The four conditional updates of the spherical offset (lines 745-758), with
  \<^verbatim>\<open>rotationSpeed = 1.2\<close>.\<close>

definition orbitSpherical :: "arrow_keys \<Rightarrow> real \<Rightarrow> spherical \<Rightarrow> spherical" where
  "orbitSpherical keys delta s =
     (let rotationSpeed = 1.2;
          s1 = (if left keys then s\<lparr>theta := theta s - rotationSpeed * delta\<rparr> else s);
          s2 = (if right keys then s1\<lparr>theta := theta s1 + rotationSpeed * delta\<rparr> else s1);
          s3 = (if up keys
                then s2\<lparr>phi := max 0.1 (min (pi * 0.495) (phi s2 - rotationSpeed * delta))\<rparr>
                else s2)
      in if down keys
         then s3\<lparr>phi := max 0.1 (min (pi * 0.495) (phi s3 + rotationSpeed * delta))\<rparr>
         else s3)"

text \<open>The camera block of \<^verbatim>\<open>useFrame\<close> (lines 739-763).\<close>

definition frameCamera :: "real \<Rightarrow> scene \<Rightarrow> scene" where
  "frameCamera delta st =
     (let keys = arrowKeys st
      in if left keys \<or> right keys \<or> up keys \<or> down keys
         then
           (let offset = subVectors (position (sceneCamera st)) target;
                s = orbitSpherical keys delta (setFromVector3 offset);
                pos = addVectors target (setFromSpherical s)
            in st\<lparr>sceneCamera := \<lparr> position = pos, orientation = LookAt pos target \<rparr>\<rparr>)
         else st)"

text \<open>The constants \<^verbatim>\<open>currentSize\<close> and \<^verbatim>\<open>currentRoundness\<close> of the preview block
  (lines 794-811).\<close>

definition currentSize :: "real \<Rightarrow> scene \<Rightarrow> real" where
  "currentSize now st =
     (let holdDuration = now - holdStartTime st;
          minSize = 5; maxSize = 50; maxHold = 3000;
          normalizedHold = min holdDuration maxHold / maxHold
      in minSize + (maxSize - minSize) * normalizedHold)"

definition currentRoundness :: "real \<Rightarrow> scene \<Rightarrow> real" where
  "currentRoundness now st =
     (if isSpacebarHeld st
      then (let holdDuration = now - holdStartTime st;
                maxRoundnessHold = 3000;
                normalizedRoundness = min holdDuration maxRoundnessHold / maxRoundnessHold
            in (currentSize now st / 2) * normalizedRoundness)
      else maxRoundnessAchieved st)"

text \<open>The preview block of \<^verbatim>\<open>useFrame\<close> (lines 793-875): while a session with an anchor
  is active, \<^verbatim>\<open>maxRoundnessAchieved\<close> is raised when the spacebar is held, the preview mesh
  is created if there is none, and its geometry, position, colour and opacity are set; with
  no session the preview is removed.\<close>

definition framePreview :: "real \<Rightarrow> scene \<Rightarrow> scene" where
  "framePreview now st =
     (case (isHolding st, holdStartPosition st) of
        (True, Some (px, py, pz)) \<Rightarrow>
          (let cs = currentSize now st;
               cr = currentRoundness now st;
               st' = (if isSpacebarHeld st
                      then st\<lparr>maxRoundnessAchieved := max (maxRoundnessAchieved st) cr\<rparr>
                      else st);
               created = (case previewRef st of
                            Some m \<Rightarrow> m
                          | None \<Rightarrow>
                              \<lparr> geometry = BoxGeometry 5 5 5,
                                meshPosition = (px, py + 5 / 2, pz),
                                color = colorOf (globalRGB st),
                                opacity = (real_of_int (alpha (globalRGB st)) / 255) * 0.5,
                                spawnTime = None, baseY = None, isPreview = True \<rparr>);
               updated = created\<lparr>geometry := boxGeometry cs cr,
                                 meshPosition := (px, py + cs / 2, pz),
                                 color := colorOf (globalRGB st),
                                 opacity := (real_of_int (alpha (globalRGB st)) / 255) * 0.5\<rparr>
           in st'\<lparr>previewRef := Some updated\<rparr>)
      | (True, None) \<Rightarrow> st
      | (False, _) \<Rightarrow> (if previewRef st \<noteq> None then st\<lparr>previewRef := None\<rparr> else st))"

text \<open>The display block (lines 788-790).\<close>

definition frameDisplay :: "real \<Rightarrow> scene \<Rightarrow> scene" where
  "frameDisplay now st =
     (if displayExists st
      then st\<lparr>rgbPills := updateRGBDisplay (displayExists st) now (globalRGB st) (keyHoldState st)\<rparr>
      else st)"

text \<open>\<^verbatim>\<open>useFrame\<close> (lines 718-876), in the order of the source. The animation of the
  meshes and the water's time uniform (lines 765-785) touch nothing the other blocks read
  and are left out.\<close>

definition useFrame :: "real \<Rightarrow> real \<Rightarrow> scene \<Rightarrow> scene" where
  "useFrame delta now st = framePreview now (frameDisplay now (frameCamera delta (frameAudio st)))"

section \<open>Runs and the formulas of the specification\<close>

text \<open>The key-repeat events of a held key: \<^verbatim>\<open>handleKeyDown\<close> at each of the given times.\<close>

fun repeatKeyDown :: "string \<Rightarrow> real list \<Rightarrow> scene \<Rightarrow> scene" where
  "repeatKeyDown key [] st = st"
| "repeatKeyDown key (t # ts) st = repeatKeyDown key ts (handleKeyDown key t st)"

text \<open>Commits of the deltas \<open>ks\<close> to one channel, one after the other.\<close>

fun commitAll :: "channel \<Rightarrow> int list \<Rightarrow> rgba \<Rightarrow> rgba" where
  "commitAll c [] rgb = rgb"
| "commitAll c (k # ks) rgb = commitAll c ks (commitChannel c k rgb)"

text \<open>Frames, each with its frame delta and its clock reading.\<close>

fun frames :: "(real \<times> real) list \<Rightarrow> scene \<Rightarrow> scene" where
  "frames [] st = st"
| "frames ((delta, now) # fs) st = frames fs (useFrame delta now st)"

text \<open>The events the component reacts to, each with what it reads from the outside (the
  key, the button, the clock, the raycast results, the frame delta), and the scene after a
  sequence of them.\<close>

datatype event =
  KeyDown string real
| KeyUp string real
| MouseDown int real "vec3 list" ray
| MouseUp int real
| Frame real real

fun step :: "event \<Rightarrow> scene \<Rightarrow> scene" where
  "step (KeyDown key now) st = handleKeyDown key now st"
| "step (KeyUp key now) st = handleKeyUp key now st"
| "step (MouseDown button now intersects ry) st = handleMouseDown button now intersects ry st"
| "step (MouseUp button now) st = handleMouseUp button now st"
| "step (Frame delta now) st = useFrame delta now st"

fun run :: "event list \<Rightarrow> scene \<Rightarrow> scene" where
  "run [] st = st"
| "run (e # es) st = run es (step e st)"

text \<open>The camera's polar angle: \<open>phi\<close> of the spherical coordinates of its offset from the
  target.\<close>

definition polarAngle :: "scene \<Rightarrow> real" where
  "polarAngle st = phi (setFromVector3 (subVectors (position (sceneCamera st)) target))"

text \<open>The radius of the same spherical coordinates: the camera's distance from the target.\<close>

definition orbitRadius :: "scene \<Rightarrow> real" where
  "orbitRadius st = radius (setFromVector3 (subVectors (position (sceneCamera st)) target))"

text \<open>The formulas as the specification words them: the size of a hold of \<open>d\<close>
  milliseconds, its \<open>clamp\<close>, the volume at a distance, and the delta of a colour channel held
  for \<open>e\<close> milliseconds.\<close>

definition specSize :: "real \<Rightarrow> real" where
  "specSize d = 5 + 45 * min d 3000 / 3000"

definition specClamp :: "real \<Rightarrow> real \<Rightarrow> real \<Rightarrow> real" where
  "specClamp x lo hi = (if x < lo then lo else if hi < x then hi else x)"

definition specVolume :: "real \<Rightarrow> real" where
  "specVolume distance =
     specClamp (1.0 - specClamp ((distance - 40) / (1000 - 40)) 0 1 * 0.9) 0.2 1.0"

definition specDelta :: "real \<Rightarrow> int" where
  "specDelta e = \<lfloor>min e 3000 / 3000 * 255\<rfloor>"

section \<open>Colour channels: commit, preview, stray release, key repeat\<close>

lemma smod_nonneg: "0 \<le> (n::int) \<Longrightarrow> n smod 256 = n mod 256"
  by (simp add: signed_modulo_int_def sgn_if)

lemma colorChange_nonneg: "0 \<le> d \<Longrightarrow> 0 \<le> colorChange d"
  by (simp add: colorChange_def)

lemma channelValue_commit:
  "channelValue c (commitChannel c k rgb) = (channelValue c rgb + k) smod 256"
  by (cases c) (simp_all add: channelValue_def commitChannel_def)

lemma channel_key_cases:
  "channelOfKey key = Some c \<Longrightarrow> key = ''1'' \<or> key = ''2'' \<or> key = ''3'' \<or> key = ''4''"
  by (simp add: channelOfKey_def split: if_splits)

lemma setArrowAndSpace_channel_key:
  assumes "channelOfKey key = Some c"
  shows "setArrowAndSpace key v st = st"
  using channel_key_cases [OF assms]
  by (elim disjE) (simp_all add: setArrowAndSpace_def)

lemma channelValue_keyUp:
  "channelOfKey key = Some c \<Longrightarrow>
   channelValue c (globalRGB (handleKeyUp key now st)) =
     (channelValue c (globalRGB st) + colorChange (now - startTime (keyHoldState st c))) smod 256"
  by (simp add: handleKeyUp_def setArrowAndSpace_channel_key Let_def channelValue_commit)

lemma commitAll_value:
  "0 \<le> channelValue c rgb \<Longrightarrow> channelValue c rgb < 256 \<Longrightarrow> \<forall>k \<in> set ks. 0 \<le> k \<Longrightarrow>
   channelValue c (commitAll c ks rgb) = (channelValue c rgb + sum_list ks) mod 256"
proof (induction ks arbitrary: rgb)
  case Nil
  then show ?case by simp
next
  case (Cons k ks)
  let ?rgb = "commitChannel c k rgb"
  have v: "channelValue c ?rgb = (channelValue c rgb + k) mod 256"
    using Cons.prems by (simp add: channelValue_commit smod_nonneg)
  have "channelValue c (commitAll c ks ?rgb) = (channelValue c ?rgb + sum_list ks) mod 256"
    using Cons.prems by (intro Cons.IH) (simp_all add: v)
  also have "\<dots> = ((channelValue c rgb + k) mod 256 + sum_list ks) mod 256"
    by (simp only: v)
  also have "\<dots> = (channelValue c rgb + k + sum_list ks) mod 256"
    by (rule mod_add_left_eq)
  finally show ?case
    by (simp add: add.assoc)
qed

lemma handleKeyDown_holding:
  "channelOfKey key = Some c \<Longrightarrow> keyIsHolding (keyHoldState st c) \<Longrightarrow> handleKeyDown key now st = st"
  by (simp add: handleKeyDown_def setArrowAndSpace_channel_key)

lemma repeatKeyDown_holding:
  "channelOfKey key = Some c \<Longrightarrow> keyIsHolding (keyHoldState st c) \<Longrightarrow> repeatKeyDown key ts st = st"
  by (induction ts) (simp_all add: handleKeyDown_holding)

text \<open>
  Claim C3. Releasing a channel key commits \<open>(v + k) mod 256\<close> to its channel, where \<open>v\<close>
  is the committed value (not negative) and \<open>k\<close> the delta of the hold (the clock does not
  run backwards, so \<open>k\<close> is not negative): the value wraps and is never clamped. Deltas
  that sum to 512 bring a channel back to the value it started from, and holding key "1"
  for exactly 3000 ms from the initial red 255 commits red 254.
\<close>

theorem color_commit_wraps:
  "(channelOfKey key = Some c \<and> 0 \<le> channelValue c (globalRGB st)
      \<and> startTime (keyHoldState st c) \<le> now \<longrightarrow>
      channelValue c (globalRGB (handleKeyUp key now st)) =
        (channelValue c (globalRGB st) + colorChange (now - startTime (keyHoldState st c))) mod 256)
   \<and> (0 \<le> channelValue c' rgb \<and> 0 \<le> k \<longrightarrow>
        channelValue c' (commitChannel c' k rgb) = (channelValue c' rgb + k) mod 256)
   \<and> (0 \<le> channelValue c' rgb \<and> channelValue c' rgb < 256 \<and> (\<forall>k \<in> set ks. 0 \<le> k)
        \<and> sum_list ks = 512 \<longrightarrow>
        channelValue c' (commitAll c' ks rgb) = channelValue c' rgb)
   \<and> red (globalRGB (handleKeyUp ''1'' (t + 3000) (handleKeyDown ''1'' t initialScene))) = 254"
proof (intro conjI impI)
  assume h: "channelOfKey key = Some c \<and> 0 \<le> channelValue c (globalRGB st)
      \<and> startTime (keyHoldState st c) \<le> now"
  then have "0 \<le> colorChange (now - startTime (keyHoldState st c))"
    by (simp add: colorChange_nonneg)
  with h show "channelValue c (globalRGB (handleKeyUp key now st)) =
        (channelValue c (globalRGB st) + colorChange (now - startTime (keyHoldState st c))) mod 256"
    by (simp add: channelValue_keyUp smod_nonneg)
next
  assume "0 \<le> channelValue c' rgb \<and> 0 \<le> k"
  then show "channelValue c' (commitChannel c' k rgb) = (channelValue c' rgb + k) mod 256"
    by (simp add: channelValue_commit smod_nonneg)
next
  assume h: "0 \<le> channelValue c' rgb \<and> channelValue c' rgb < 256 \<and> (\<forall>k \<in> set ks. 0 \<le> k)
        \<and> sum_list ks = 512"
  then have v0: "0 \<le> channelValue c' rgb" and v1: "channelValue c' rgb < 256"
    and nn: "\<forall>k \<in> set ks. 0 \<le> k" and total: "sum_list ks = 512"
    by blast+
  have "channelValue c' (commitAll c' ks rgb) = (channelValue c' rgb + sum_list ks) mod 256"
    by (rule commitAll_value [OF v0 v1 nn])
  also have "\<dots> = (channelValue c' rgb + 256 * 2) mod 256"
    by (simp only: total) simp
  also have "\<dots> = channelValue c' rgb mod 256"
    by (rule mod_mult_self2)
  also have "\<dots> = channelValue c' rgb"
    using v0 v1 by (rule mod_pos_pos_trivial)
  finally show "channelValue c' (commitAll c' ks rgb) = channelValue c' rgb" .
next
  show "red (globalRGB (handleKeyUp ''1'' (t + 3000) (handleKeyDown ''1'' t initialScene))) = 254"
    by (simp add: handleKeyUp_def handleKeyDown_def setArrowAndSpace_def channelOfKey_def
        initialScene_def commitChannel_def colorChange_def signed_modulo_int_def)
qed

text \<open>Key "2" released 1500 ms after the page loaded, a commit of 7, and the deltas 300 and
  212, all from the initial white.\<close>

theorem color_commit_wraps_witness:
  "channelOfKey ''2'' = Some Key2 \<and> 0 \<le> channelValue Key2 (globalRGB initialScene)
   \<and> startTime (keyHoldState initialScene Key2) \<le> 1500
   \<and> channelValue Key2 (globalRGB (handleKeyUp ''2'' 1500 initialScene)) = 126
   \<and> channelValue Key2 (commitChannel Key2 7 (globalRGB initialScene)) = 6
   \<and> sum_list [300, 212 :: int] = 512
   \<and> channelValue Key2 (commitAll Key2 [300, 212] (globalRGB initialScene)) = 255"
  using color_commit_wraps [where key = "''2''" and c = Key2 and st = initialScene and now = 1500
      and c' = Key2 and rgb = "globalRGB initialScene" and k = 7 and ks = "[300, 212]"]
  by (simp add: channelOfKey_def channelValue_def initialScene_def colorChange_def)

text \<open>
  Claim C4 as stated fails: the display does not clamp the elapsed time. With key "1" held
  since time 0 and red 255 committed, the pill shows 253 at time 6000 (a delta of 510), where
  the clamped formula of the claim gives \<open>(255 + 255) mod 256 = 254\<close>.
\<close>

theorem preview_delta_counterexample:
  "updateRGBDisplay True 6000 (globalRGB (handleKeyDown ''1'' 0 initialScene))
      (keyHoldState (handleKeyDown ''1'' 0 initialScene))
     = Some \<lparr> red = 253, green = 255, blue = 255, alpha = 255 \<rparr>
   \<and> (red (globalRGB (handleKeyDown ''1'' 0 initialScene))
        + specDelta (6000 - startTime (keyHoldState (handleKeyDown ''1'' 0 initialScene) Key1))) mod 256
       = 254
   \<and> colorChange (6000 - startTime (keyHoldState (handleKeyDown ''1'' 0 initialScene) Key1)) = 510"
  by (simp add: updateRGBDisplay_def previewChannel_def handleKeyDown_def setArrowAndSpace_def
      channelOfKey_def initialScene_def channelValue_def colorChange_def specDelta_def
      signed_modulo_int_def)

text \<open>
  Claim C4, amended. For a channel that is being held, with a committed value \<open>v\<close> that is
  not negative and \<open>e = now - startTime\<close> not negative, the displayed value is
  \<open>(v + floor (e / 3000 * 255)) mod 256\<close> with \<open>e\<close> unclamped; a channel that is not held
  shows \<open>v\<close>. Up to 3000 ms the delta is the clamped one of the claim and at most 255; from
  3000 ms on it is at least 255, and it never decreases with \<open>e\<close>.
\<close>

theorem preview_delta_unclamped:
  "(keyIsHolding (holds c) \<and> 0 \<le> channelValue c rgb \<and> startTime (holds c) \<le> now \<longrightarrow>
      map_option (channelValue c) (updateRGBDisplay True now rgb holds) =
        Some ((channelValue c rgb + \<lfloor>(now - startTime (holds c)) / 3000 * 255\<rfloor>) mod 256))
   \<and> (\<not> keyIsHolding (holds c) \<longrightarrow>
        map_option (channelValue c) (updateRGBDisplay True now rgb holds) = Some (channelValue c rgb))
   \<and> (0 \<le> e \<and> e \<le> 3000 \<longrightarrow> colorChange e = specDelta e \<and> colorChange e \<le> 255)
   \<and> (3000 \<le> e \<longrightarrow> 255 \<le> colorChange e)
   \<and> (e \<le> e' \<longrightarrow> colorChange e \<le> colorChange e')"
proof (intro conjI impI)
  have disp: "map_option (channelValue c) (updateRGBDisplay True now rgb holds)
                = Some (previewChannel now rgb holds c)"
    by (cases c) (simp_all add: updateRGBDisplay_def channelValue_def)
  {
    assume h: "keyIsHolding (holds c) \<and> 0 \<le> channelValue c rgb \<and> startTime (holds c) \<le> now"
    then have "0 \<le> colorChange (now - startTime (holds c))"
      by (simp add: colorChange_nonneg)
    with h have "previewChannel now rgb holds c =
        (channelValue c rgb + colorChange (now - startTime (holds c))) mod 256"
      by (simp add: previewChannel_def smod_nonneg)
    then show "map_option (channelValue c) (updateRGBDisplay True now rgb holds) =
        Some ((channelValue c rgb + \<lfloor>(now - startTime (holds c)) / 3000 * 255\<rfloor>) mod 256)"
      by (simp add: disp colorChange_def)
  }
  {
    assume "\<not> keyIsHolding (holds c)"
    then show "map_option (channelValue c) (updateRGBDisplay True now rgb holds)
                 = Some (channelValue c rgb)"
      by (simp add: disp previewChannel_def)
  }
  {
    assume h: "0 \<le> e \<and> e \<le> 3000"
    then show "colorChange e = specDelta e"
      by (simp add: colorChange_def specDelta_def min_def)
    from h have "e / 3000 * 255 \<le> 255" by simp
    then have "\<lfloor>e / 3000 * 255\<rfloor> \<le> \<lfloor>255 :: real\<rfloor>" by (rule floor_mono)
    then show "colorChange e \<le> 255" by (simp add: colorChange_def)
  }
  {
    assume "3000 \<le> e"
    then have "(255::real) \<le> e / 3000 * 255" by simp
    then have "\<lfloor>255 :: real\<rfloor> \<le> \<lfloor>e / 3000 * 255\<rfloor>" by (rule floor_mono)
    then show "255 \<le> colorChange e" by (simp add: colorChange_def)
  }
  {
    assume "e \<le> e'"
    then have "e / 3000 * 255 \<le> e' / 3000 * 255" by simp
    then show "colorChange e \<le> colorChange e'"
      unfolding colorChange_def by (rule floor_mono)
  }
qed

text \<open>Key "3" pressed at 100 and displayed at 9100, beside the idle initial scene.\<close>

theorem preview_delta_unclamped_witness:
  "keyIsHolding (keyHoldState (handleKeyDown ''3'' 100 initialScene) Key3)
   \<and> 0 \<le> channelValue Key3 (globalRGB (handleKeyDown ''3'' 100 initialScene))
   \<and> startTime (keyHoldState (handleKeyDown ''3'' 100 initialScene) Key3) \<le> 9100
   \<and> map_option (channelValue Key3)
        (updateRGBDisplay True 9100 (globalRGB (handleKeyDown ''3'' 100 initialScene))
           (keyHoldState (handleKeyDown ''3'' 100 initialScene))) = Some 252
   \<and> \<not> keyIsHolding (keyHoldState initialScene Key3)
   \<and> map_option (channelValue Key3)
        (updateRGBDisplay True 9100 (globalRGB initialScene) (keyHoldState initialScene)) = Some 255
   \<and> colorChange 1500 = specDelta 1500 \<and> colorChange 1500 \<le> 255
   \<and> 255 \<le> colorChange 9000 \<and> colorChange 1500 \<le> colorChange 9000"
  using preview_delta_unclamped [where holds = "keyHoldState (handleKeyDown ''3'' 100 initialScene)"
      and c = Key3 and rgb = "globalRGB (handleKeyDown ''3'' 100 initialScene)" and now = 9100
      and e = 1500 and e' = 9000]
    preview_delta_unclamped [where holds = "keyHoldState initialScene" and c = Key3
      and rgb = "globalRGB initialScene" and now = 9100 and e = 9000 and e' = 9000]
  by (simp add: handleKeyDown_def setArrowAndSpace_def channelOfKey_def initialScene_def
      channelValue_def)

text \<open>
  Claim C5 at the failing input: in the initial scene no channel is holding, and a key-up of
  "1" at time 3000 turns the committed red from 255 into 254; the hold states stay as they
  were.
\<close>

theorem key_up_without_press_changes_color:
  "\<not> keyIsHolding (keyHoldState initialScene Key1)
   \<and> red (globalRGB initialScene) = 255
   \<and> red (globalRGB (handleKeyUp ''1'' 3000 initialScene)) = 254
   \<and> keyHoldState (handleKeyUp ''1'' 3000 initialScene) = keyHoldState initialScene"
  by (auto simp add: handleKeyUp_def setArrowAndSpace_def channelOfKey_def initialScene_def
      commitChannel_def colorChange_def signed_modulo_int_def fun_eq_iff)

text \<open>
  Claim C6. A key-down of a channel key whose channel is already holding leaves the scene as
  it is, hold state included. So after a first press at \<open>t0\<close> on an idle channel and any
  number of repeat events, the channel still holds since \<open>t0\<close>, the release at \<open>t1\<close> gives
  the scene that it gives without the repeats, and the committed value is the one of a single
  hold of \<open>t1 - t0\<close>.
\<close>

theorem key_repeat_keeps_start:
  "(channelOfKey key = Some c \<and> keyIsHolding (keyHoldState st c) \<longrightarrow>
      handleKeyDown key now st = st)
   \<and> (channelOfKey key = Some c \<and> \<not> keyIsHolding (keyHoldState st c) \<longrightarrow>
        keyHoldState (repeatKeyDown key ts (handleKeyDown key t0 st)) c
          = \<lparr> keyIsHolding = True, startTime = t0 \<rparr>
        \<and> handleKeyUp key t1 (repeatKeyDown key ts (handleKeyDown key t0 st))
          = handleKeyUp key t1 (handleKeyDown key t0 st)
        \<and> channelValue c (globalRGB (handleKeyUp key t1 (repeatKeyDown key ts (handleKeyDown key t0 st))))
          = (channelValue c (globalRGB st) + colorChange (t1 - t0)) smod 256)"
proof (intro conjI impI)
  assume "channelOfKey key = Some c \<and> keyIsHolding (keyHoldState st c)"
  then show "handleKeyDown key now st = st"
    by (simp add: handleKeyDown_holding)
next
  assume h: "channelOfKey key = Some c \<and> \<not> keyIsHolding (keyHoldState st c)"
  let ?st = "handleKeyDown key t0 st"
  from h have first: "?st = st\<lparr>keyHoldState := (keyHoldState st)(c := \<lparr> keyIsHolding = True, startTime = t0 \<rparr>)\<rparr>"
    by (simp add: handleKeyDown_def setArrowAndSpace_channel_key)
  then have holding: "keyIsHolding (keyHoldState ?st c)" by simp
  with h have rep: "repeatKeyDown key ts ?st = ?st"
    by (simp add: repeatKeyDown_holding)
  show "keyHoldState (repeatKeyDown key ts ?st) c = \<lparr> keyIsHolding = True, startTime = t0 \<rparr>"
    by (simp add: rep) (simp add: first)
  show "handleKeyUp key t1 (repeatKeyDown key ts ?st) = handleKeyUp key t1 ?st"
    by (simp add: rep)
  from h show "channelValue c (globalRGB (handleKeyUp key t1 (repeatKeyDown key ts ?st)))
          = (channelValue c (globalRGB st) + colorChange (t1 - t0)) smod 256"
    by (simp add: rep channelValue_keyUp) (simp add: first)
qed

text \<open>Key "4" pressed at 10, repeated at 500, 530 and 560, released at 1510.\<close>

theorem key_repeat_keeps_start_witness:
  "channelOfKey ''4'' = Some Key4
   \<and> keyIsHolding (keyHoldState (handleKeyDown ''4'' 10 initialScene) Key4)
   \<and> handleKeyDown ''4'' 500 (handleKeyDown ''4'' 10 initialScene) = handleKeyDown ''4'' 10 initialScene
   \<and> \<not> keyIsHolding (keyHoldState initialScene Key4)
   \<and> channelValue Key4 (globalRGB (handleKeyUp ''4'' 1510
        (repeatKeyDown ''4'' [500, 530, 560] (handleKeyDown ''4'' 10 initialScene)))) = 126"
  using key_repeat_keeps_start [where key = "''4''" and c = Key4
      and st = "handleKeyDown ''4'' 10 initialScene" and now = 500]
    key_repeat_keeps_start [where key = "''4''" and c = Key4 and st = initialScene
      and ts = "[500, 530, 560]" and ?t0.0 = 10 and ?t1.0 = 1510]
  by (simp add: handleKeyDown_def setArrowAndSpace_def channelOfKey_def initialScene_def
      channelValue_def colorChange_def signed_modulo_int_def)

section \<open>Pointer sessions: size and roundness\<close>

lemma geometrySize_boxGeometry: "geometrySize (boxGeometry sz r) = sz"
  by (simp add: boxGeometry_def)

lemma releaseSize_spec: "releaseSize now st = specSize (now - holdStartTime st)"
  by (simp add: releaseSize_def specSize_def)

lemma currentSize_spec: "currentSize now st = specSize (now - holdStartTime st)"
  by (simp add: currentSize_def specSize_def)

lemma handleMouseUp_spawns:
  "isHolding st \<Longrightarrow> holdStartPosition st = Some p \<Longrightarrow>
   handleMouseUp 0 now st =
     spawnCube p (releaseSize now st) (maxRoundnessAchieved st) now (st\<lparr>isHolding := False\<rparr>)"
  by (simp add: handleMouseUp_def)

lemma spawnCube_cubes:
  "\<exists>cube. spawnedCubes (spawnCube p sz r now st) = spawnedCubes st @ [cube]
      \<and> geometry cube = boxGeometry sz r"
  by (cases p) (simp add: spawnCube_def)

lemma framePreview_mesh:
  "isHolding st \<Longrightarrow> holdStartPosition st = Some p \<Longrightarrow>
   \<exists>m. previewRef (framePreview now st) = Some m
     \<and> geometry m = boxGeometry (currentSize now st) (currentRoundness now st)"
  by (cases p) (simp add: framePreview_def Let_def)

lemma framePreview_max_held:
  "isSpacebarHeld st \<Longrightarrow> isHolding st \<Longrightarrow> holdStartPosition st = Some p \<Longrightarrow>
   maxRoundnessAchieved (framePreview now st)
     = max (maxRoundnessAchieved st) (currentRoundness now st)"
  by (cases p) (simp add: framePreview_def Let_def)

lemma currentSize_cong: "holdStartTime a = holdStartTime b \<Longrightarrow> currentSize now a = currentSize now b"
  by (simp add: currentSize_def)

lemma currentRoundness_cong:
  "holdStartTime a = holdStartTime b \<Longrightarrow> isSpacebarHeld a = isSpacebarHeld b \<Longrightarrow>
   maxRoundnessAchieved a = maxRoundnessAchieved b \<Longrightarrow>
   currentRoundness now a = currentRoundness now b"
  by (simp add: currentRoundness_def currentSize_def)

lemma framePreview_cong:
  assumes "isHolding a = isHolding b" and "holdStartPosition a = holdStartPosition b"
    and "holdStartTime a = holdStartTime b" and "isSpacebarHeld a = isSpacebarHeld b"
    and "maxRoundnessAchieved a = maxRoundnessAchieved b" and "previewRef a = previewRef b"
    and "globalRGB a = globalRGB b"
  shows "previewRef (framePreview now a) = previewRef (framePreview now b)
    \<and> maxRoundnessAchieved (framePreview now a) = maxRoundnessAchieved (framePreview now b)"
  using assms currentSize_cong [of a b now] currentRoundness_cong [of a b now]
  by (simp add: framePreview_def Let_def split: prod.splits bool.splits option.splits)

lemma before_preview:
  "isHolding (frameDisplay now (frameCamera delta (frameAudio st))) = isHolding st
   \<and> holdStartPosition (frameDisplay now (frameCamera delta (frameAudio st))) = holdStartPosition st
   \<and> holdStartTime (frameDisplay now (frameCamera delta (frameAudio st))) = holdStartTime st
   \<and> isSpacebarHeld (frameDisplay now (frameCamera delta (frameAudio st))) = isSpacebarHeld st
   \<and> maxRoundnessAchieved (frameDisplay now (frameCamera delta (frameAudio st))) = maxRoundnessAchieved st
   \<and> previewRef (frameDisplay now (frameCamera delta (frameAudio st))) = previewRef st
   \<and> globalRGB (frameDisplay now (frameCamera delta (frameAudio st))) = globalRGB st"
  by (simp add: frameDisplay_def frameCamera_def frameAudio_def Let_def split: option.splits)

lemma useFrame_preview:
  "previewRef (useFrame delta now st) = previewRef (framePreview now st)
   \<and> maxRoundnessAchieved (useFrame delta now st) = maxRoundnessAchieved (framePreview now st)"
  unfolding useFrame_def
  by (rule framePreview_cong) (simp_all add: before_preview)

lemma useFrame_audio: "audioVolume (useFrame delta now st) = audioVolume (frameAudio st)"
  by (simp add: useFrame_def framePreview_def frameDisplay_def frameCamera_def Let_def
      split: prod.splits bool.splits option.splits)


lemma useFrame_mesh:
  "isHolding st \<Longrightarrow> holdStartPosition st = Some p \<Longrightarrow>
   \<exists>m. previewRef (useFrame delta now st) = Some m
     \<and> geometry m = boxGeometry (currentSize now st) (currentRoundness now st)"
  by (simp add: useFrame_preview framePreview_mesh)

lemma useFrame_max_held:
  "isSpacebarHeld st \<Longrightarrow> isHolding st \<Longrightarrow> holdStartPosition st = Some p \<Longrightarrow>
   maxRoundnessAchieved (useFrame delta now st)
     = max (maxRoundnessAchieved st) (currentRoundness now st)"
  by (simp add: useFrame_preview framePreview_max_held)

lemma framePreview_spacebar: "isSpacebarHeld (framePreview now st) = isSpacebarHeld st"
  by (simp add: framePreview_def Let_def split: prod.splits bool.splits option.splits)

lemma useFrame_spacebar: "isSpacebarHeld (useFrame delta now st) = isSpacebarHeld st"
  by (simp add: useFrame_def framePreview_spacebar before_preview)

lemma framePreview_max_released:
  "\<not> isSpacebarHeld st \<Longrightarrow> maxRoundnessAchieved (framePreview now st) = maxRoundnessAchieved st"
  by (simp add: framePreview_def Let_def split: prod.splits bool.splits option.splits)

lemma frames_released:
  "\<not> isSpacebarHeld st \<Longrightarrow>
   \<not> isSpacebarHeld (frames fs st)
   \<and> maxRoundnessAchieved (frames fs st) = maxRoundnessAchieved st"
proof (induction fs arbitrary: st)
  case Nil
  then show ?case by simp
next
  case (Cons f fs)
  obtain delta now where f: "f = (delta, now)" by (cases f)
  have "\<not> isSpacebarHeld (useFrame delta now st)"
    using Cons.prems by (simp add: useFrame_spacebar)
  moreover have "maxRoundnessAchieved (useFrame delta now st) = maxRoundnessAchieved st"
    using Cons.prems by (simp add: useFrame_preview framePreview_max_released)
  ultimately show ?case
    using Cons.IH [of "useFrame delta now st"] by (simp add: f)
qed

lemma specSize_bounds: "0 \<le> d \<Longrightarrow> 5 \<le> specSize d \<and> specSize d \<le> 50"
  by (simp add: specSize_def min_def)

lemma specSize_mono: "d \<le> d' \<Longrightarrow> specSize d \<le> specSize d'"
  by (simp add: specSize_def min_def)

text \<open>
  Claim C1. With \<open>d = now - holdStartTime\<close> the hold duration, the size that
  \<^verbatim>\<open>handleMouseUp\<close> computes and the size that the frame callback computes are both
  \<open>5 + 45 * min d 3000 / 3000\<close>; in a session with an anchor the cube appended at
  pointer-up and the preview mesh after a frame are built with that size. For \<open>d \<ge> 0\<close> the
  size lies in \<open>[5, 50]\<close>; it never decreases with \<open>d\<close>, and it is 50 from 3000 ms on.
\<close>

theorem hold_size:
  "releaseSize now st = specSize (now - holdStartTime st)
   \<and> currentSize now st = specSize (now - holdStartTime st)
   \<and> (isHolding st \<and> holdStartPosition st = Some p \<longrightarrow>
        (\<exists>cube. spawnedCubes (handleMouseUp 0 now st) = spawnedCubes st @ [cube]
            \<and> geometrySize (geometry cube) = specSize (now - holdStartTime st))
        \<and> (\<exists>m. previewRef (useFrame delta now st) = Some m
            \<and> geometrySize (geometry m) = specSize (now - holdStartTime st)))
   \<and> (0 \<le> d \<longrightarrow> 5 \<le> specSize d \<and> specSize d \<le> 50)
   \<and> (d \<le> d' \<longrightarrow> specSize d \<le> specSize d')
   \<and> (3000 \<le> d \<longrightarrow> specSize d = 50)"
proof (intro conjI impI)
  show "releaseSize now st = specSize (now - holdStartTime st)"
    by (rule releaseSize_spec)
  show "currentSize now st = specSize (now - holdStartTime st)"
    by (rule currentSize_spec)
  show "3000 \<le> d \<Longrightarrow> specSize d = 50"
    by (simp add: specSize_def)
  show "d \<le> d' \<Longrightarrow> specSize d \<le> specSize d'"
    by (rule specSize_mono)
  show "0 \<le> d \<Longrightarrow> 5 \<le> specSize d" and "0 \<le> d \<Longrightarrow> specSize d \<le> 50"
    by (simp_all add: specSize_bounds)
next
  assume h: "isHolding st \<and> holdStartPosition st = Some p"
  obtain cube where "spawnedCubes (spawnCube p (releaseSize now st) (maxRoundnessAchieved st) now
        (st\<lparr>isHolding := False\<rparr>)) = spawnedCubes (st\<lparr>isHolding := False\<rparr>) @ [cube]"
    and "geometry cube = boxGeometry (releaseSize now st) (maxRoundnessAchieved st)"
    using spawnCube_cubes by blast
  with h have "spawnedCubes (handleMouseUp 0 now st) = spawnedCubes st @ [cube]
      \<and> geometrySize (geometry cube) = specSize (now - holdStartTime st)"
    by (simp add: handleMouseUp_spawns geometrySize_boxGeometry releaseSize_spec)
  then show "\<exists>cube. spawnedCubes (handleMouseUp 0 now st) = spawnedCubes st @ [cube]
            \<and> geometrySize (geometry cube) = specSize (now - holdStartTime st)"
    by blast
next
  assume h: "isHolding st \<and> holdStartPosition st = Some p"
  then obtain m where "previewRef (useFrame delta now st) = Some m"
    and "geometry m = boxGeometry (currentSize now st) (currentRoundness now st)"
    using useFrame_mesh by blast
  then have "previewRef (useFrame delta now st) = Some m
      \<and> geometrySize (geometry m) = specSize (now - holdStartTime st)"
    by (simp add: geometrySize_boxGeometry currentSize_spec)
  then show "\<exists>m. previewRef (useFrame delta now st) = Some m
            \<and> geometrySize (geometry m) = specSize (now - holdStartTime st)"
    by blast
qed

text \<open>A session that starts at time 1000 on a water hit at \<open>(1, 0, 2)\<close>, seen at time
  2500: size 27.5.\<close>

theorem hold_size_witness:
  "isHolding (handleMouseDown 0 1000 [(1, 0, 2)] \<lparr> origin = (1, 5, 2), direction = (0, - 1, 0) \<rparr> initialScene)
   \<and> holdStartPosition (handleMouseDown 0 1000 [(1, 0, 2)] \<lparr> origin = (1, 5, 2), direction = (0, - 1, 0) \<rparr> initialScene)
       = Some (1, 0, 2)
   \<and> releaseSize 2500 (handleMouseDown 0 1000 [(1, 0, 2)] \<lparr> origin = (1, 5, 2), direction = (0, - 1, 0) \<rparr> initialScene)
       = 27.5
   \<and> (\<exists>cube. spawnedCubes (handleMouseUp 0 2500
          (handleMouseDown 0 1000 [(1, 0, 2)] \<lparr> origin = (1, 5, 2), direction = (0, - 1, 0) \<rparr> initialScene))
          = [cube] \<and> geometrySize (geometry cube) = 27.5)
   \<and> (\<exists>m. previewRef (useFrame 0.016 2500
          (handleMouseDown 0 1000 [(1, 0, 2)] \<lparr> origin = (1, 5, 2), direction = (0, - 1, 0) \<rparr> initialScene))
          = Some m \<and> geometrySize (geometry m) = 27.5)
   \<and> 5 \<le> specSize 1500 \<and> specSize 1500 \<le> specSize 3100 \<and> specSize 3100 = 50"
  using hold_size [where st = "handleMouseDown 0 1000 [(1, 0, 2)]
        \<lparr> origin = (1, 5, 2), direction = (0, - 1, 0) \<rparr> initialScene"
      and now = 2500 and p = "(1, 0, 2)" and d = 1500 and d' = 3100 and delta = "0.016"]
    hold_size [where st = initialScene and now = 0 and d = 3100 and d' = 3100]
  by (simp add: handleMouseDown_def initialScene_def specSize_def)

lemma framePreview_session:
  "isHolding (framePreview now st) = isHolding st
   \<and> holdStartPosition (framePreview now st) = holdStartPosition st
   \<and> holdStartTime (framePreview now st) = holdStartTime st
   \<and> spawnedCubes (framePreview now st) = spawnedCubes st"
  by (simp add: framePreview_def Let_def split: prod.splits bool.splits option.splits)

lemma before_preview_cubes:
  "spawnedCubes (frameDisplay now (frameCamera delta (frameAudio st))) = spawnedCubes st"
  by (simp add: frameDisplay_def frameCamera_def frameAudio_def Let_def split: option.splits)

lemma useFrame_session:
  "isHolding (useFrame delta now st) = isHolding st
   \<and> holdStartPosition (useFrame delta now st) = holdStartPosition st
   \<and> holdStartTime (useFrame delta now st) = holdStartTime st
   \<and> spawnedCubes (useFrame delta now st) = spawnedCubes st"
  by (simp add: useFrame_def framePreview_session before_preview before_preview_cubes)

lemma handleMouseUp_cube:
  assumes "isHolding st" and "holdStartPosition st = Some p"
  shows "\<exists>cube. spawnedCubes (handleMouseUp 0 now st) = spawnedCubes st @ [cube]
     \<and> geometry cube = boxGeometry (releaseSize now st) (maxRoundnessAchieved st)"
proof -
  obtain cube where "spawnedCubes (spawnCube p (releaseSize now st) (maxRoundnessAchieved st) now
        (st\<lparr>isHolding := False\<rparr>)) = spawnedCubes (st\<lparr>isHolding := False\<rparr>) @ [cube]"
    and "geometry cube = boxGeometry (releaseSize now st) (maxRoundnessAchieved st)"
    using spawnCube_cubes by blast
  with assms have "spawnedCubes (handleMouseUp 0 now st) = spawnedCubes st @ [cube]
     \<and> geometry cube = boxGeometry (releaseSize now st) (maxRoundnessAchieved st)"
    by (simp add: handleMouseUp_spawns)
  then show ?thesis by blast
qed

lemma boxGeometry_roundness:
  "0 \<le> r \<Longrightarrow> r \<le> sz / 2 \<Longrightarrow> geometryRoundness (boxGeometry sz r) = r"
  by (simp add: boxGeometry_def)

text \<open>
  Claim C2. In a frame with the spacebar held the roundness is
  \<open>(currentSize / 2) * min d 3000 / 3000\<close>, which is at most \<open>currentSize / 2\<close> when the
  clock has not run backwards, and the frame stores the maximum of the previous
  \<^verbatim>\<open>maxRoundnessAchieved\<close> and this roundness. In a frame with the spacebar released the
  roundness is \<^verbatim>\<open>maxRoundnessAchieved\<close>, and any number of such frames leaves that value as
  it was. The preview mesh after a frame is a rounded box with the frame's size, 8 segments
  and the frame's roundness capped at half the size when that roundness is positive, and a
  plain box otherwise. Pointer-up hands \<^verbatim>\<open>maxRoundnessAchieved\<close>, as it is at that instant,
  to \<^verbatim>\<open>spawnCube\<close>, and the cube it appends is built the same way from the release size
  and \<^verbatim>\<open>maxRoundnessAchieved\<close>: whenever that value is between 0 and half the size, it is
  the corner radius of the committed cube.
\<close>

theorem hold_roundness:
  "(isSpacebarHeld st \<longrightarrow>
      currentRoundness now st
        = (currentSize now st / 2) * (min (now - holdStartTime st) 3000 / 3000))
   \<and> (isSpacebarHeld st \<and> holdStartTime st \<le> now \<longrightarrow>
        currentRoundness now st \<le> currentSize now st / 2)
   \<and> (isSpacebarHeld st \<and> isHolding st \<and> holdStartPosition st = Some p \<longrightarrow>
        maxRoundnessAchieved (useFrame delta now st)
          = max (maxRoundnessAchieved st) (currentRoundness now st))
   \<and> (\<not> isSpacebarHeld st \<longrightarrow>
        currentRoundness now st = maxRoundnessAchieved st
        \<and> maxRoundnessAchieved (frames fs st) = maxRoundnessAchieved st
        \<and> currentRoundness now (frames fs st) = maxRoundnessAchieved st)
   \<and> (isHolding st \<and> holdStartPosition st = Some p \<longrightarrow>
        (\<exists>m. previewRef (useFrame delta now st) = Some m
           \<and> geometry m = boxGeometry (currentSize now st) (currentRoundness now st))
        \<and> handleMouseUp 0 now st
            = spawnCube p (releaseSize now st) (maxRoundnessAchieved st) now (st\<lparr>isHolding := False\<rparr>))
   \<and> (isHolding st \<and> holdStartPosition st = Some p \<longrightarrow>
        (\<exists>m. previewRef (useFrame delta now st) = Some m
           \<and> geometry m =
               (if 0 < currentRoundness now st
                then RoundedBoxGeometry (currentSize now st) (currentSize now st) (currentSize now st) 8
                       (min (currentRoundness now st) (currentSize now st / 2))
                else BoxGeometry (currentSize now st) (currentSize now st) (currentSize now st)))
        \<and> (\<exists>cube. spawnedCubes (handleMouseUp 0 now st) = spawnedCubes st @ [cube]
           \<and> geometry cube =
               (if 0 < maxRoundnessAchieved st
                then RoundedBoxGeometry (releaseSize now st) (releaseSize now st) (releaseSize now st) 8
                       (min (maxRoundnessAchieved st) (releaseSize now st / 2))
                else BoxGeometry (releaseSize now st) (releaseSize now st) (releaseSize now st))
           \<and> (0 \<le> maxRoundnessAchieved st \<and> maxRoundnessAchieved st \<le> releaseSize now st / 2 \<longrightarrow>
                geometryRoundness (geometry cube) = maxRoundnessAchieved st)))"
proof (intro conjI impI)
  assume "isSpacebarHeld st"
  then show "currentRoundness now st
        = (currentSize now st / 2) * (min (now - holdStartTime st) 3000 / 3000)"
    by (simp add: currentRoundness_def)
next
  assume h: "isSpacebarHeld st \<and> holdStartTime st \<le> now"
  let ?d = "now - holdStartTime st"
  from h have d: "0 \<le> ?d" by simp
  then have size: "0 \<le> currentSize now st / 2"
    using specSize_bounds [of ?d] by (simp add: currentSize_spec)
  have n: "min ?d 3000 / 3000 \<le> 1" by simp
  have "(currentSize now st / 2) * (min ?d 3000 / 3000) \<le> (currentSize now st / 2) * 1"
    using size n by (rule mult_left_mono [rotated])
  with h show "currentRoundness now st \<le> currentSize now st / 2"
    by (simp add: currentRoundness_def)
next
  assume "isSpacebarHeld st \<and> isHolding st \<and> holdStartPosition st = Some p"
  then show "maxRoundnessAchieved (useFrame delta now st)
          = max (maxRoundnessAchieved st) (currentRoundness now st)"
    by (simp add: useFrame_max_held)
next
  assume h: "\<not> isSpacebarHeld st"
  then show "currentRoundness now st = maxRoundnessAchieved st"
    by (simp add: currentRoundness_def)
  from h show "maxRoundnessAchieved (frames fs st) = maxRoundnessAchieved st"
    by (simp add: frames_released)
  from h show "currentRoundness now (frames fs st) = maxRoundnessAchieved st"
    by (simp add: currentRoundness_def frames_released)
next
  assume h: "isHolding st \<and> holdStartPosition st = Some p"
  then show "\<exists>m. previewRef (useFrame delta now st) = Some m
           \<and> geometry m = boxGeometry (currentSize now st) (currentRoundness now st)"
    by (simp add: useFrame_mesh)
  from h show "handleMouseUp 0 now st
            = spawnCube p (releaseSize now st) (maxRoundnessAchieved st) now (st\<lparr>isHolding := False\<rparr>)"
    by (simp add: handleMouseUp_spawns)
next
  assume h: "isHolding st \<and> holdStartPosition st = Some p"
  then obtain m where "previewRef (useFrame delta now st) = Some m"
    and "geometry m = boxGeometry (currentSize now st) (currentRoundness now st)"
    using useFrame_mesh by blast
  then have "previewRef (useFrame delta now st) = Some m
           \<and> geometry m =
               (if 0 < currentRoundness now st
                then RoundedBoxGeometry (currentSize now st) (currentSize now st) (currentSize now st) 8
                       (min (currentRoundness now st) (currentSize now st / 2))
                else BoxGeometry (currentSize now st) (currentSize now st) (currentSize now st))"
    by (simp add: boxGeometry_def)
  then show "\<exists>m. previewRef (useFrame delta now st) = Some m
           \<and> geometry m =
               (if 0 < currentRoundness now st
                then RoundedBoxGeometry (currentSize now st) (currentSize now st) (currentSize now st) 8
                       (min (currentRoundness now st) (currentSize now st / 2))
                else BoxGeometry (currentSize now st) (currentSize now st) (currentSize now st))"
    by blast
next
  assume h: "isHolding st \<and> holdStartPosition st = Some p"
  then obtain cube where c: "spawnedCubes (handleMouseUp 0 now st) = spawnedCubes st @ [cube]"
    and g: "geometry cube = boxGeometry (releaseSize now st) (maxRoundnessAchieved st)"
    using handleMouseUp_cube by blast
  have "geometry cube =
               (if 0 < maxRoundnessAchieved st
                then RoundedBoxGeometry (releaseSize now st) (releaseSize now st) (releaseSize now st) 8
                       (min (maxRoundnessAchieved st) (releaseSize now st / 2))
                else BoxGeometry (releaseSize now st) (releaseSize now st) (releaseSize now st))"
    by (simp add: g boxGeometry_def)
  moreover have "0 \<le> maxRoundnessAchieved st \<and> maxRoundnessAchieved st \<le> releaseSize now st / 2 \<longrightarrow>
                geometryRoundness (geometry cube) = maxRoundnessAchieved st"
    by (simp add: g boxGeometry_roundness)
  ultimately show "\<exists>cube. spawnedCubes (handleMouseUp 0 now st) = spawnedCubes st @ [cube]
           \<and> geometry cube =
               (if 0 < maxRoundnessAchieved st
                then RoundedBoxGeometry (releaseSize now st) (releaseSize now st) (releaseSize now st) 8
                       (min (maxRoundnessAchieved st) (releaseSize now st / 2))
                else BoxGeometry (releaseSize now st) (releaseSize now st) (releaseSize now st))
           \<and> (0 \<le> maxRoundnessAchieved st \<and> maxRoundnessAchieved st \<le> releaseSize now st / 2 \<longrightarrow>
                geometryRoundness (geometry cube) = maxRoundnessAchieved st)"
    using c by blast
qed

text \<open>The spacebar is down when the session starts at time 0 on a water hit at
  \<open>(-170, 0, -200)\<close>, seen from the initial camera; a frame at 750 reaches a roundness of
  \<open>(16.25 / 2) * 0.25\<close> and shows a rounded preview; the spacebar is released at 800, the
  frames at 1000 and 1250 keep that roundness, and pointer-up at 1500 appends a rounded cube
  of size 27.5 with that corner radius.\<close>

theorem hold_roundness_witness:
  "isSpacebarHeld (handleMouseDown 0 0 [(- 170, 0, - 200)]
        \<lparr> origin = (30, 50, 200), direction = (- 4 / 9, - 1 / 9, - 8 / 9) \<rparr>
        (handleKeyDown '' '' 0 initialScene))
   \<and> isHolding (handleMouseDown 0 0 [(- 170, 0, - 200)]
        \<lparr> origin = (30, 50, 200), direction = (- 4 / 9, - 1 / 9, - 8 / 9) \<rparr>
        (handleKeyDown '' '' 0 initialScene))
   \<and> holdStartPosition (handleMouseDown 0 0 [(- 170, 0, - 200)]
        \<lparr> origin = (30, 50, 200), direction = (- 4 / 9, - 1 / 9, - 8 / 9) \<rparr>
        (handleKeyDown '' '' 0 initialScene)) = Some (- 170, 0, - 200)
   \<and> holdStartTime (handleMouseDown 0 0 [(- 170, 0, - 200)]
        \<lparr> origin = (30, 50, 200), direction = (- 4 / 9, - 1 / 9, - 8 / 9) \<rparr>
        (handleKeyDown '' '' 0 initialScene)) \<le> 750
   \<and> currentRoundness 750 (handleMouseDown 0 0 [(- 170, 0, - 200)]
        \<lparr> origin = (30, 50, 200), direction = (- 4 / 9, - 1 / 9, - 8 / 9) \<rparr>
        (handleKeyDown '' '' 0 initialScene)) = 2.03125
   \<and> maxRoundnessAchieved (useFrame 0.016 750
        (handleMouseDown 0 0 [(- 170, 0, - 200)]
          \<lparr> origin = (30, 50, 200), direction = (- 4 / 9, - 1 / 9, - 8 / 9) \<rparr>
          (handleKeyDown '' '' 0 initialScene))) = 2.03125
   \<and> (\<exists>m. previewRef (useFrame 0.016 750
        (handleMouseDown 0 0 [(- 170, 0, - 200)]
          \<lparr> origin = (30, 50, 200), direction = (- 4 / 9, - 1 / 9, - 8 / 9) \<rparr>
          (handleKeyDown '' '' 0 initialScene))) = Some m
        \<and> geometry m = RoundedBoxGeometry 16.25 16.25 16.25 8 2.03125)
   \<and> \<not> isSpacebarHeld (handleKeyUp '' '' 800 (useFrame 0.016 750
        (handleMouseDown 0 0 [(- 170, 0, - 200)]
          \<lparr> origin = (30, 50, 200), direction = (- 4 / 9, - 1 / 9, - 8 / 9) \<rparr>
          (handleKeyDown '' '' 0 initialScene))))
   \<and> currentRoundness 1500 (frames [(0.25, 1000), (0.25, 1250)] (handleKeyUp '' '' 800 (useFrame 0.016 750
        (handleMouseDown 0 0 [(- 170, 0, - 200)]
          \<lparr> origin = (30, 50, 200), direction = (- 4 / 9, - 1 / 9, - 8 / 9) \<rparr>
          (handleKeyDown '' '' 0 initialScene))))) = 2.03125
   \<and> (\<exists>cube. spawnedCubes (handleMouseUp 0 1500
          (frames [(0.25, 1000), (0.25, 1250)] (handleKeyUp '' '' 800 (useFrame 0.016 750
            (handleMouseDown 0 0 [(- 170, 0, - 200)]
              \<lparr> origin = (30, 50, 200), direction = (- 4 / 9, - 1 / 9, - 8 / 9) \<rparr>
              (handleKeyDown '' '' 0 initialScene)))))) = [cube]
        \<and> geometry cube = RoundedBoxGeometry 27.5 27.5 27.5 8 2.03125
        \<and> geometryRoundness (geometry cube) = 2.03125)"
proof -
  let ?ry = "\<lparr> origin = (30, 50, 200), direction = (- 4 / 9, - 1 / 9, - 8 / 9) \<rparr>"
  let ?s0 = "handleMouseDown 0 0 [(- 170, 0, - 200)] ?ry (handleKeyDown '' '' 0 initialScene)"
  let ?s1 = "handleKeyUp '' '' 800 (useFrame 0.016 750 ?s0)"
  let ?s2 = "frames [(0.25, 1000), (0.25, 1250)] ?s1"
  have s0: "isSpacebarHeld ?s0" "isHolding ?s0" "holdStartPosition ?s0 = Some (- 170, 0, - 200)"
    "holdStartTime ?s0 = 0" "maxRoundnessAchieved ?s0 = 0"
    by (simp_all add: handleMouseDown_def handleKeyDown_def setArrowAndSpace_def channelOfKey_def
        initialScene_def)
  have cr: "currentRoundness 750 ?s0 = 2.03125" "currentSize 750 ?s0 = 16.25"
    using s0 by (simp_all add: currentRoundness_def currentSize_def)
  note first = hold_roundness [where st = ?s0 and now = 750 and p = "(- 170, 0, - 200)"
      and fs = "[]" and delta = "0.016"]
  have m1: "maxRoundnessAchieved (useFrame 0.016 750 ?s0) = 2.03125"
    using first s0 cr by simp
  from first s0 have "\<exists>m. previewRef (useFrame 0.016 750 ?s0) = Some m
      \<and> geometry m =
          (if 0 < currentRoundness 750 ?s0
           then RoundedBoxGeometry (currentSize 750 ?s0) (currentSize 750 ?s0) (currentSize 750 ?s0) 8
                  (min (currentRoundness 750 ?s0) (currentSize 750 ?s0 / 2))
           else BoxGeometry (currentSize 750 ?s0) (currentSize 750 ?s0) (currentSize 750 ?s0))"
    by blast
  then have pv: "\<exists>m. previewRef (useFrame 0.016 750 ?s0) = Some m
      \<and> geometry m = RoundedBoxGeometry 16.25 16.25 16.25 8 2.03125"
    by (simp only: cr) simp
  have s1: "\<not> isSpacebarHeld ?s1" "isHolding ?s1" "holdStartPosition ?s1 = Some (- 170, 0, - 200)"
    "holdStartTime ?s1 = 0" "maxRoundnessAchieved ?s1 = 2.03125" "spawnedCubes ?s1 = []"
    using s0 m1
    by (simp_all add: handleKeyUp_def setArrowAndSpace_def channelOfKey_def useFrame_session)
      (simp add: handleMouseDown_def handleKeyDown_def setArrowAndSpace_def channelOfKey_def
        initialScene_def)
  note second = hold_roundness [where st = ?s1 and now = 1500 and p = "(- 170, 0, - 200)"
      and fs = "[(0.25, 1000), (0.25, 1250)]" and delta = "0.016"]
  from second s1(1) have "maxRoundnessAchieved ?s2 = maxRoundnessAchieved ?s1"
    and "currentRoundness 1500 ?s2 = maxRoundnessAchieved ?s1"
    by blast+
  then have m2: "maxRoundnessAchieved ?s2 = 2.03125" "currentRoundness 1500 ?s2 = 2.03125"
    by (simp_all only: s1)
  have s2: "isHolding ?s2" "holdStartPosition ?s2 = Some (- 170, 0, - 200)"
    "holdStartTime ?s2 = 0" "spawnedCubes ?s2 = []"
    using s1 by (simp_all add: useFrame_session)
  have rs: "releaseSize 1500 ?s2 = 27.5"
    using s2(3) by (simp add: releaseSize_def del: frames.simps)
  note third = hold_roundness [where st = ?s2 and now = 1500 and p = "(- 170, 0, - 200)"
      and fs = "[]" and delta = "0.016"]
  from third s2(1,2) have "\<exists>cube. spawnedCubes (handleMouseUp 0 1500 ?s2) = spawnedCubes ?s2 @ [cube]
      \<and> geometry cube =
          (if 0 < maxRoundnessAchieved ?s2
           then RoundedBoxGeometry (releaseSize 1500 ?s2) (releaseSize 1500 ?s2) (releaseSize 1500 ?s2) 8
                  (min (maxRoundnessAchieved ?s2) (releaseSize 1500 ?s2 / 2))
           else BoxGeometry (releaseSize 1500 ?s2) (releaseSize 1500 ?s2) (releaseSize 1500 ?s2))
      \<and> (0 \<le> maxRoundnessAchieved ?s2 \<and> maxRoundnessAchieved ?s2 \<le> releaseSize 1500 ?s2 / 2 \<longrightarrow>
           geometryRoundness (geometry cube) = maxRoundnessAchieved ?s2)"
    by blast
  then have cube: "\<exists>cube. spawnedCubes (handleMouseUp 0 1500 ?s2) = [cube]
      \<and> geometry cube = RoundedBoxGeometry 27.5 27.5 27.5 8 2.03125
      \<and> geometryRoundness (geometry cube) = 2.03125"
    by (simp only: m2 rs s2) simp
  from s0 cr(1) m1 pv s1(1) m2(2) cube show ?thesis
    by (intro conjI) simp_all
qed

section \<open>The anchor of a session\<close>

lemma intersectPlane_ground_height:
  assumes "intersectPlane ry \<lparr> normal = (0, 1, 0), planeConstant = 0 \<rparr> = Some (qx, qy, qz)"
  shows "qy = 0"
proof -
  obtain ox oy oz where o: "origin ry = (ox, oy, oz)" by (cases "origin ry") auto
  obtain dx dy dz where d: "direction ry = (dx, dy, dz)" by (cases "direction ry") auto
  show ?thesis
  proof (cases "dy = 0")
    case True
    with assms o d show ?thesis
      by (auto simp add: intersectPlane_def distanceToPlane_def dot_def split: if_splits)
  next
    case False
    with assms o d show ?thesis
      by (auto simp add: intersectPlane_def distanceToPlane_def dot_def Let_def split: if_splits)
  qed
qed

text \<open>
  Claim C7 as stated fails in its second step. A ray from the initial camera position
  \<open>(30, 50, 200)\<close>, in view and almost level, passes beyond the far edge of the water (a
  square of side 10000 around the origin) and is anchored at \<open>(-970, 0, -9800)\<close>, on
  the plane \<open>y = 0\<close>; the plane at the look-at target's height, \<open>y = 10\<close>, would give
  \<open>(-770, 10, -7800)\<close>.
\<close>

theorem anchor_plane_counterexample:
  "holdStartPosition (handleMouseDown 0 0 [] \<lparr> origin = (30, 50, 200), direction = (- 20 / 201, - 1 / 201, - 200 / 201) \<rparr> initialScene)
     = Some (- 970, 0, - 9800)
   \<and> target = (0, 10, 0)
   \<and> intersectPlane \<lparr> origin = (30, 50, 200), direction = (- 20 / 201, - 1 / 201, - 200 / 201) \<rparr>
        \<lparr> normal = (0, 1, 0), planeConstant = - 10 \<rparr> = Some (- 770, 10, - 7800)"
  by (simp add: handleMouseDown_def intersectPlane_def distanceToPlane_def dot_def target_def
      initialScene_def)

text \<open>
  Claim C7, amended. A pointer-down with a button other than the primary one leaves the
  scene as it is. With the primary button the session starts (holding, start time \<open>now\<close>,
  maximal roundness 0) and the anchor is the first water hit if there is one, otherwise the
  ray's intersection with the horizontal plane \<open>y = 0\<close>, otherwise the origin; a point of
  that plane has height 0.
\<close>

theorem anchor_resolution:
  "(button \<noteq> 0 \<longrightarrow> handleMouseDown button now intersects ry st = st)
   \<and> holdStartPosition (handleMouseDown 0 now intersects ry st) =
       Some (case intersects of
               p # _ \<Rightarrow> p
             | [] \<Rightarrow> (case intersectPlane ry \<lparr> normal = (0, 1, 0), planeConstant = 0 \<rparr> of
                        Some q \<Rightarrow> q
                      | None \<Rightarrow> (0, 0, 0)))
   \<and> isHolding (handleMouseDown 0 now intersects ry st)
   \<and> holdStartTime (handleMouseDown 0 now intersects ry st) = now
   \<and> maxRoundnessAchieved (handleMouseDown 0 now intersects ry st) = 0
   \<and> (intersectPlane ry \<lparr> normal = (0, 1, 0), planeConstant = 0 \<rparr> = Some (qx, qy, qz) \<longrightarrow> qy = 0)"
  by (auto simp add: handleMouseDown_def intersectPlane_ground_height
      split: list.splits option.splits)

text \<open>The secondary button, and a ray from the initial camera position, in view and
  almost level, that passes beyond the far edge of the water.\<close>

theorem anchor_resolution_witness:
  "(2::int) \<noteq> 0
   \<and> handleMouseDown 2 0 [] \<lparr> origin = (30, 50, 200), direction = (20 / 201, - 1 / 201, - 200 / 201) \<rparr> initialScene = initialScene
   \<and> intersectPlane \<lparr> origin = (30, 50, 200), direction = (20 / 201, - 1 / 201, - 200 / 201) \<rparr>
        \<lparr> normal = (0, 1, 0), planeConstant = 0 \<rparr> = Some (1030, 0, - 9800)
   \<and> holdStartPosition (handleMouseDown 0 0 [] \<lparr> origin = (30, 50, 200), direction = (20 / 201, - 1 / 201, - 200 / 201) \<rparr> initialScene)
       = Some (1030, 0, - 9800)"
  using anchor_resolution [where button = 2 and now = 0 and intersects = "[]"
      and ry = "\<lparr> origin = (30, 50, 200), direction = (20 / 201, - 1 / 201, - 200 / 201) \<rparr>" and st = initialScene
      and qx = 1030 and qy = 0 and qz = "- 9800"]
  by (simp add: intersectPlane_def distanceToPlane_def dot_def)


section \<open>The audio volume\<close>

lemma specClamp_max_min: "lo \<le> hi \<Longrightarrow> specClamp x lo hi = max lo (min hi x)"
  by (simp add: specClamp_def min_def max_def)

lemma appliedVolume_spec: "appliedVolume d = specVolume d"
  by (simp add: appliedVolume_def specVolume_def specClamp_max_min Let_def)

lemma appliedVolume_antimono:
  assumes "d \<le> d'"
  shows "appliedVolume d' \<le> appliedVolume d"
proof -
  let ?n = "max 0 (min 1 ((d - 40) / (1000 - 40)))"
  let ?n' = "max 0 (min 1 ((d' - 40) / (1000 - 40)))"
  have "(d - 40) / (1000 - 40) \<le> (d' - 40) / (1000 - 40)"
    using assms by (intro divide_right_mono) simp_all
  then have n: "?n \<le> ?n'"
    by (intro max.mono min.mono order_refl)
  have "?n * 0.9 \<le> ?n' * 0.9"
    using n by (rule mult_right_mono) simp
  then have "1.0 - ?n' * 0.9 \<le> 1.0 - ?n * 0.9"
    by (rule diff_left_mono)
  then have "max 0.2 (min 1.0 (1.0 - ?n' * 0.9)) \<le> max 0.2 (min 1.0 (1.0 - ?n * 0.9))"
    by (intro max.mono min.mono order_refl)
  then show ?thesis
    unfolding appliedVolume_def Let_def .
qed

text \<open>
  Claim C9. The volume handed to \<^verbatim>\<open>setVolume\<close> is
  \<open>clamp (1.0 - clamp ((distance - 40) / (1000 - 40)) 0 1 * 0.9) 0.2 1.0\<close>, with the distance
  from the camera to the target as the frame finds it, after every frame that has an audio
  object; it never increases with the distance and is never below 0.2.
\<close>

theorem audio_volume:
  "appliedVolume distance = specVolume distance
   \<and> (audioVolume st \<noteq> None \<longrightarrow>
        audioVolume (useFrame delta now st)
          = Some (specVolume (distanceTo (position (sceneCamera st)) target)))
   \<and> (d \<le> d' \<longrightarrow> appliedVolume d' \<le> appliedVolume d)
   \<and> 0.2 \<le> appliedVolume distance"
proof (intro conjI impI)
  show "appliedVolume distance = specVolume distance"
    by (rule appliedVolume_spec)
  show "0.2 \<le> appliedVolume distance"
    by (simp add: appliedVolume_def)
  show "d \<le> d' \<Longrightarrow> appliedVolume d' \<le> appliedVolume d"
    by (rule appliedVolume_antimono)
  show "audioVolume st \<noteq> None \<Longrightarrow> audioVolume (useFrame delta now st)
          = Some (specVolume (distanceTo (position (sceneCamera st)) target))"
    by (auto simp add: useFrame_audio frameAudio_def appliedVolume_spec)
qed

text \<open>A camera 520 away from the target: volume 0.55.\<close>

theorem audio_volume_witness:
  "audioVolume (initialScene\<lparr>sceneCamera := \<lparr> position = (0, 10, 520), orientation = LookAt (0, 10, 520) (0, 10, 0) \<rparr>\<rparr>) \<noteq> None
   \<and> audioVolume (useFrame 0.016 0 (initialScene\<lparr>sceneCamera := \<lparr> position = (0, 10, 520), orientation = LookAt (0, 10, 520) (0, 10, 0) \<rparr>\<rparr>))
       = Some 0.55
   \<and> (520::real) \<le> 760 \<and> appliedVolume 760 \<le> appliedVolume 520"
  using audio_volume [where st = "initialScene\<lparr>sceneCamera := \<lparr> position = (0, 10, 520), orientation = LookAt (0, 10, 520) (0, 10, 0) \<rparr>\<rparr>"
      and d = 520 and d' = 760 and distance = 520 and delta = "0.016" and now = 0]
  by (simp add: initialScene_def specVolume_def specClamp_def distanceTo_def subVectors_def dot_def
      target_def)

text \<open>
  Claim C10 as stated fails at the far end: at distance 1000, and beyond, the applied volume
  is the floor 0.2 and not 0.1.
\<close>

theorem far_volume_counterexample:
  "appliedVolume 1000 = 0.2 \<and> appliedVolume 1000 \<noteq> 0.1 \<and> appliedVolume 2000 = 0.2"
  by (simp add: appliedVolume_def)

text \<open>
  Claim C10, amended. The applied volume is 1.0 at distance 40 and at any smaller distance,
  and 0.2 at distance 1000 and at any larger distance.
\<close>

theorem volume_endpoints:
  "appliedVolume 40 = 1.0
   \<and> appliedVolume 1000 = 0.2
   \<and> (d \<le> 40 \<longrightarrow> appliedVolume d = 1.0)
   \<and> (1000 \<le> d \<longrightarrow> appliedVolume d = 0.2)"
  by (simp add: appliedVolume_def min_def max_def)

text \<open>Distances 12 and 4321.\<close>

theorem volume_endpoints_witness:
  "(12::real) \<le> 40 \<and> appliedVolume 12 = 1.0 \<and> (1000::real) \<le> 4321 \<and> appliedVolume 4321 = 0.2"
  using volume_endpoints [of 12] volume_endpoints [of 4321]
  by simp

section \<open>The camera orbit\<close>

lemma polar_interval: "(0.1::real) \<le> pi * 0.495"
  using pi_ge_two by simp

lemma polar_upper_le_pi: "pi * 0.495 \<le> pi"
  by simp

lemma orbitSpherical_radius: "radius (orbitSpherical keys delta s) = radius s"
  by (cases "left keys"; cases "right keys"; cases "up keys"; cases "down keys")
    (simp_all add: orbitSpherical_def)

lemma max_min_range:
  fixes a b x :: real
  assumes "a \<le> b"
  shows "a \<le> max a (min b x) \<and> max a (min b x) \<le> b"
  using assms by (simp add: min_def max_def)

lemma orbitSpherical_phi_down:
  assumes "down keys"
  shows "\<exists>x. phi (orbitSpherical keys delta s) = max 0.1 (min (pi * 0.495) x)"
proof -
  have "\<And>s3 x. phi (s3\<lparr>phi := max 0.1 (min (pi * 0.495) x)\<rparr>) = max 0.1 (min (pi * 0.495) x)"
    by simp
  then show ?thesis
    unfolding orbitSpherical_def Let_def if_P [OF assms] by blast
qed

lemma orbitSpherical_phi_up:
  assumes "up keys" and "\<not> down keys"
  shows "\<exists>x. phi (orbitSpherical keys delta s) = max 0.1 (min (pi * 0.495) x)"
proof -
  have "\<And>s3 x. phi (s3\<lparr>phi := max 0.1 (min (pi * 0.495) x)\<rparr>) = max 0.1 (min (pi * 0.495) x)"
    by simp
  then show ?thesis
    unfolding orbitSpherical_def Let_def if_P [OF assms(1)] if_not_P [OF assms(2)] by blast
qed

lemma orbitSpherical_phi_clamped:
  assumes "up keys \<or> down keys"
  shows "0.1 \<le> phi (orbitSpherical keys delta s) \<and> phi (orbitSpherical keys delta s) \<le> pi * 0.495"
proof -
  from assms obtain x where "phi (orbitSpherical keys delta s) = max 0.1 (min (pi * 0.495) x)"
    using orbitSpherical_phi_down orbitSpherical_phi_up by blast
  then show ?thesis
    using max_min_range [OF polar_interval, of x] by simp
qed

lemma orbitSpherical_phi_kept:
  "\<not> up keys \<Longrightarrow> \<not> down keys \<Longrightarrow> phi (orbitSpherical keys delta s) = phi s"
  by (cases "left keys"; cases "right keys") (simp_all add: orbitSpherical_def)

lemma sub_add_target: "subVectors (addVectors target v) target = v"
  by (cases v) (simp add: subVectors_def addVectors_def target_def)

lemma setFromVector3_radius_nonneg: "0 \<le> radius (setFromVector3 v)"
  by (cases v) (auto simp add: setFromVector3_def Let_def)

lemma setFromVector3_phi_range:
  "0 \<le> phi (setFromVector3 v) \<and> phi (setFromVector3 v) \<le> pi"
  by (cases v) (auto simp add: setFromVector3_def Let_def intro!: arccos_lbound arccos_ubound)

lemma spherical_length:
  fixes r p t :: real
  shows "(sin p * r * sin t) * (sin p * r * sin t) + (cos p * r) * (cos p * r)
         + (sin p * r * cos t) * (sin p * r * cos t) = r\<^sup>2"
  using sin_cos_squared_add3 [of t] sin_cos_squared_add3 [of p] by algebra

lemma roundtrip_radius:
  "0 \<le> radius s \<Longrightarrow> radius (setFromVector3 (setFromSpherical s)) = radius s"
  by (simp add: setFromVector3_def setFromSpherical_def Let_def spherical_length)

lemma roundtrip_phi:
  assumes "0 < radius s" and "0 \<le> phi s" and "phi s \<le> pi"
  shows "phi (setFromVector3 (setFromSpherical s)) = phi s"
proof -
  have "max (- 1) (min 1 (cos (phi s))) = cos (phi s)"
    by (simp add: min_absorb2 max_absorb2)
  with assms show ?thesis
    by (simp add: setFromVector3_def setFromSpherical_def Let_def spherical_length arccos_cos)
qed

lemma frameCamera_idle:
  "\<not> (left (arrowKeys st) \<or> right (arrowKeys st) \<or> up (arrowKeys st) \<or> down (arrowKeys st))
   \<Longrightarrow> frameCamera delta st = st"
  by (simp add: frameCamera_def)

lemma frameCamera_active:
  "left (arrowKeys st) \<or> right (arrowKeys st) \<or> up (arrowKeys st) \<or> down (arrowKeys st) \<Longrightarrow>
   subVectors (position (sceneCamera (frameCamera delta st))) target
     = setFromSpherical (orbitSpherical (arrowKeys st) delta
         (setFromVector3 (subVectors (position (sceneCamera st)) target)))"
  by (simp add: frameCamera_def Let_def sub_add_target)

lemma frameCamera_radius: "orbitRadius (frameCamera delta st) = orbitRadius st"
proof (cases "left (arrowKeys st) \<or> right (arrowKeys st) \<or> up (arrowKeys st) \<or> down (arrowKeys st)")
  case True
  let ?s = "setFromVector3 (subVectors (position (sceneCamera st)) target)"
  have "0 \<le> radius (orbitSpherical (arrowKeys st) delta ?s)"
    by (simp add: orbitSpherical_radius setFromVector3_radius_nonneg)
  then have "radius (setFromVector3 (setFromSpherical (orbitSpherical (arrowKeys st) delta ?s)))
      = radius ?s"
    by (simp add: roundtrip_radius orbitSpherical_radius)
  with True show ?thesis
    by (simp add: orbitRadius_def frameCamera_active)
next
  case False
  then show ?thesis by (simp add: frameCamera_idle)
qed

lemma frameCamera_polar:
  assumes r: "0 < orbitRadius st"
    and p: "0.1 \<le> polarAngle st \<and> polarAngle st \<le> pi * 0.495"
  shows "0.1 \<le> polarAngle (frameCamera delta st) \<and> polarAngle (frameCamera delta st) \<le> pi * 0.495"
proof (cases "left (arrowKeys st) \<or> right (arrowKeys st) \<or> up (arrowKeys st) \<or> down (arrowKeys st)")
  case True
  let ?s = "setFromVector3 (subVectors (position (sceneCamera st)) target)"
  let ?s' = "orbitSpherical (arrowKeys st) delta ?s"
  have range: "0.1 \<le> phi ?s' \<and> phi ?s' \<le> pi * 0.495"
  proof (cases "up (arrowKeys st) \<or> down (arrowKeys st)")
    case True
    then show ?thesis by (rule orbitSpherical_phi_clamped)
  next
    case False
    then have "phi ?s' = phi ?s" by (simp add: orbitSpherical_phi_kept)
    with p show ?thesis by (simp add: polarAngle_def)
  qed
  from range have lo: "0.1 \<le> phi ?s'" and hi: "phi ?s' \<le> pi * 0.495"
    by blast+
  have "0 \<le> phi ?s'"
    using lo by simp
  moreover have "phi ?s' \<le> pi"
    using hi polar_upper_le_pi by (rule order_trans)
  moreover have "0 < radius ?s'"
    using r by (simp add: orbitSpherical_radius orbitRadius_def)
  ultimately have "phi (setFromVector3 (setFromSpherical ?s')) = phi ?s'"
    by (simp add: roundtrip_phi)
  with True range show ?thesis
    by (simp add: polarAngle_def frameCamera_active)
next
  case False
  with p show ?thesis by (simp add: frameCamera_idle)
qed

lemma initial_offset:
  "subVectors (position (sceneCamera initialScene)) target = (30, 40, 200)"
  by (simp add: initialScene_def target_def subVectors_def)

lemma sqrt_42500_bounds: "80 \<le> sqrt 42500 \<and> sqrt 42500 \<le> 2000"
proof
  show "80 \<le> sqrt 42500" by (rule real_le_rsqrt) simp
  show "sqrt 42500 \<le> 2000" by (rule real_le_lsqrt) simp_all
qed

lemma initial_radius: "0 < radius (setFromVector3 (30, 40, 200))"
  using sqrt_42500_bounds by (simp add: setFromVector3_def Let_def)

lemma initial_polar:
  "0.1 \<le> phi (setFromVector3 (30, 40, 200)) \<and> phi (setFromVector3 (30, 40, 200)) \<le> pi * 0.495"
proof -
  let ?c = "40 / sqrt 42500"
  have c: "0.02 \<le> ?c" "?c \<le> 1 / 2"
    using sqrt_42500_bounds by (simp_all add: field_simps)
  have "0 \<le> ?c"
    by simp
  then have "- 1 \<le> ?c" and "?c \<le> 1"
    using c(2) by linarith+
  then have clamp: "max (- 1) (min 1 ?c) = ?c"
    by (simp only: min_absorb2 max_absorb2)
  have phi0: "phi (setFromVector3 (30, 40, 200)) = arccos ?c"
    using sqrt_42500_bounds clamp by (simp add: setFromVector3_def Let_def)
  have "cos (pi * 0.495) = sin (pi / 2 - pi * 0.495)"
    by (simp only: cos_sin_eq) simp
  also have "\<dots> \<le> pi / 2 - pi * 0.495"
    by (rule sin_x_le_x) simp
  also have "\<dots> \<le> 0.02"
    using pi_less_4 by simp
  also have "\<dots> \<le> ?c"
    by (rule c(1))
  finally have lo: "cos (pi * 0.495) \<le> ?c" .
  have "arccos ?c \<le> arccos (cos (pi * 0.495))"
    using lo c cos_le_one [of "pi * 0.495"] cos_ge_minus_one [of "pi * 0.495"]
    by (subst arccos_le_mono) simp_all
  then have upper: "arccos ?c \<le> pi * 0.495"
    by (simp add: arccos_cos)
  have "cos (pi / 3) \<le> cos (0.1 :: real)"
    using pi_ge_two by (intro cos_monotone_0_pi_le) simp_all
  then have "1 / 2 \<le> cos (0.1 :: real)"
    by (simp only: cos_60)
  with c(2) have hi: "?c \<le> cos 0.1"
    by (rule order_trans)
  have "arccos (cos (0.1 :: real)) \<le> arccos ?c"
    using hi c cos_le_one [of "0.1 :: real"] cos_ge_minus_one [of "0.1 :: real"]
    by (subst arccos_le_mono) simp_all
  moreover have "arccos (cos (0.1 :: real)) = 0.1"
    using pi_ge_two by (intro arccos_cos) simp_all
  ultimately have lower: "0.1 \<le> arccos ?c"
    by simp
  from lower upper show ?thesis
    by (simp add: phi0)
qed

lemma setArrowAndSpace_camera: "sceneCamera (setArrowAndSpace key v st) = sceneCamera st"
  by (simp add: setArrowAndSpace_def Let_def)

lemma handleKeyDown_camera: "sceneCamera (handleKeyDown key now st) = sceneCamera st"
  by (simp add: handleKeyDown_def Let_def setArrowAndSpace_camera split: option.splits)

lemma handleKeyUp_camera: "sceneCamera (handleKeyUp key now st) = sceneCamera st"
  by (simp add: handleKeyUp_def Let_def setArrowAndSpace_camera split: option.splits)

lemma handleMouseDown_camera:
  "sceneCamera (handleMouseDown button now intersects ry st) = sceneCamera st"
  by (simp add: handleMouseDown_def Let_def split: list.splits option.splits)

lemma spawnCube_camera: "sceneCamera (spawnCube p sz r now st) = sceneCamera st"
  by (cases p) (simp add: spawnCube_def)

lemma handleMouseUp_camera: "sceneCamera (handleMouseUp button now st) = sceneCamera st"
  by (simp add: handleMouseUp_def Let_def spawnCube_camera split: option.splits)

lemma frameAudio_camera:
  "sceneCamera (frameAudio st) = sceneCamera st \<and> arrowKeys (frameAudio st) = arrowKeys st"
  by (simp add: frameAudio_def split: option.splits)

lemma frameDisplay_camera: "sceneCamera (frameDisplay now st) = sceneCamera st"
  by (simp add: frameDisplay_def)

lemma framePreview_camera: "sceneCamera (framePreview now st) = sceneCamera st"
  by (simp add: framePreview_def Let_def split: prod.splits bool.splits option.splits)

lemma frameCamera_camera_cong:
  "arrowKeys a = arrowKeys b \<Longrightarrow> sceneCamera a = sceneCamera b \<Longrightarrow>
   sceneCamera (frameCamera delta a) = sceneCamera (frameCamera delta b)"
  by (simp add: frameCamera_def Let_def)

lemma useFrame_camera:
  "sceneCamera (useFrame delta now st) = sceneCamera (frameCamera delta st)"
  by (simp add: useFrame_def framePreview_camera frameDisplay_camera
      frameCamera_camera_cong [of "frameAudio st" st] frameAudio_camera)


lemma orbit_cong:
  "sceneCamera a = sceneCamera b \<Longrightarrow> orbitRadius a = orbitRadius b \<and> polarAngle a = polarAngle b"
  by (simp add: orbitRadius_def polarAngle_def)

lemma step_invariant:
  assumes "0 < orbitRadius st" and "0.1 \<le> polarAngle st \<and> polarAngle st \<le> pi * 0.495"
  shows "0 < orbitRadius (step e st)
     \<and> 0.1 \<le> polarAngle (step e st) \<and> polarAngle (step e st) \<le> pi * 0.495"
proof (cases "\<exists>delta now. e = Frame delta now")
  case True
  then obtain delta now where e: "e = Frame delta now" by blast
  have "sceneCamera (step e st) = sceneCamera (frameCamera delta st)"
    by (simp add: e useFrame_camera)
  then have "orbitRadius (step e st) = orbitRadius (frameCamera delta st)"
    and "polarAngle (step e st) = polarAngle (frameCamera delta st)"
    using orbit_cong by blast+
  then show ?thesis
    using assms frameCamera_polar [of st delta] by (simp add: frameCamera_radius)
next
  case False
  then have "sceneCamera (step e st) = sceneCamera st"
    by (cases e)
      (simp_all add: handleKeyDown_camera handleKeyUp_camera handleMouseDown_camera
        handleMouseUp_camera)
  then have "orbitRadius (step e st) = orbitRadius st" and "polarAngle (step e st) = polarAngle st"
    using orbit_cong by blast+
  with assms show ?thesis by simp
qed

lemma run_invariant:
  assumes "0 < orbitRadius st" and "0.1 \<le> polarAngle st \<and> polarAngle st \<le> pi * 0.495"
  shows "0 < orbitRadius (run es st)
     \<and> 0.1 \<le> polarAngle (run es st) \<and> polarAngle (run es st) \<le> pi * 0.495"
  using assms
proof (induction es arbitrary: st)
  case Nil
  then show ?case by simp
next
  case (Cons e es)
  have "0 < orbitRadius (step e st)
     \<and> 0.1 \<le> polarAngle (step e st) \<and> polarAngle (step e st) \<le> pi * 0.495"
    using Cons.prems by (rule step_invariant)
  then show ?case
    using Cons.IH [of "step e st"] by simp
qed

lemma step_radius: "orbitRadius (step e st) = orbitRadius st"
proof (cases "\<exists>delta now. e = Frame delta now")
  case True
  then obtain delta now where e: "e = Frame delta now" by blast
  have "sceneCamera (step e st) = sceneCamera (frameCamera delta st)"
    by (simp add: e useFrame_camera)
  then have "orbitRadius (step e st) = orbitRadius (frameCamera delta st)"
    using orbit_cong by blast
  then show ?thesis by (simp add: frameCamera_radius)
next
  case False
  then have "sceneCamera (step e st) = sceneCamera st"
    by (cases e)
      (simp_all add: handleKeyDown_camera handleKeyUp_camera handleMouseDown_camera
        handleMouseUp_camera)
  then show ?thesis using orbit_cong by blast
qed

lemma run_radius: "orbitRadius (run es st) = orbitRadius st"
  by (induction es arbitrary: st) (simp_all add: step_radius)

text \<open>
  Claim C8. After any sequence of events from the initial scene (key and pointer events and
  frames, whatever keys, times and frame deltas they carry), the camera's polar angle lies
  in \<open>[0.1, pi * 0.495]\<close>. A frame with the up or the down key active clamps the polar angle
  of the offset into that interval whatever it was before. The controller leaves the radius
  of the spherical offset alone, and so the camera's distance from the target, in one frame
  and over any sequence of events; a frame with no arrow key active returns the scene, camera
  included, as it is.
\<close>

theorem camera_polar_clamped:
  "0.1 \<le> polarAngle (run es initialScene)
   \<and> polarAngle (run es initialScene) \<le> pi * 0.495
   \<and> (up keys \<or> down keys \<longrightarrow>
        0.1 \<le> phi (orbitSpherical keys delta s) \<and> phi (orbitSpherical keys delta s) \<le> pi * 0.495)
   \<and> radius (orbitSpherical keys delta s) = radius s
   \<and> orbitRadius (frameCamera delta st) = orbitRadius st
   \<and> orbitRadius (run es st) = orbitRadius st
   \<and> (\<not> (left (arrowKeys st) \<or> right (arrowKeys st) \<or> up (arrowKeys st) \<or> down (arrowKeys st))
        \<longrightarrow> frameCamera delta st = st)"
proof (intro conjI impI)
  have "0 < orbitRadius initialScene"
    by (simp add: orbitRadius_def initial_offset initial_radius)
  moreover have "0.1 \<le> polarAngle initialScene \<and> polarAngle initialScene \<le> pi * 0.495"
    using initial_polar by (simp add: polarAngle_def initial_offset)
  ultimately have inv: "0.1 \<le> polarAngle (run es initialScene)
      \<and> polarAngle (run es initialScene) \<le> pi * 0.495"
    using run_invariant by blast
  from inv show "0.1 \<le> polarAngle (run es initialScene)" by simp
  from inv show "polarAngle (run es initialScene) \<le> pi * 0.495" by simp
next
  assume "up keys \<or> down keys"
  then show "0.1 \<le> phi (orbitSpherical keys delta s)"
    and "phi (orbitSpherical keys delta s) \<le> pi * 0.495"
    using orbitSpherical_phi_clamped by blast+
next
  show "radius (orbitSpherical keys delta s) = radius s"
    by (rule orbitSpherical_radius)
  show "orbitRadius (frameCamera delta st) = orbitRadius st"
    by (rule frameCamera_radius)
  show "orbitRadius (run es st) = orbitRadius st"
    by (rule run_radius)
next
  assume "\<not> (left (arrowKeys st) \<or> right (arrowKeys st) \<or> up (arrowKeys st) \<or> down (arrowKeys st))"
  then show "frameCamera delta st = st"
    by (rule frameCamera_idle)
qed

text \<open>The up key alone for half a second from a polar angle of 0.3, and an idle frame of
  the initial scene.\<close>

theorem camera_polar_clamped_witness:
  "(up \<lparr> up = True, down = False, left = False, right = False \<rparr>
      \<or> down \<lparr> up = True, down = False, left = False, right = False \<rparr>)
   \<and> 0.1 \<le> phi (orbitSpherical \<lparr> up = True, down = False, left = False, right = False \<rparr> 0.5
         \<lparr> radius = 5, phi = 0.3, theta = 0 \<rparr>)
   \<and> phi (orbitSpherical \<lparr> up = True, down = False, left = False, right = False \<rparr> 0.5
         \<lparr> radius = 5, phi = 0.3, theta = 0 \<rparr>) \<le> pi * 0.495
   \<and> \<not> (left (arrowKeys initialScene) \<or> right (arrowKeys initialScene)
          \<or> up (arrowKeys initialScene) \<or> down (arrowKeys initialScene))
   \<and> frameCamera 0.016 initialScene = initialScene"
  using camera_polar_clamped [where keys = "\<lparr> up = True, down = False, left = False, right = False \<rparr>"
      and delta = "0.5" and s = "\<lparr> radius = 5, phi = 0.3, theta = 0 \<rparr>" and es = "[]"]
    camera_polar_clamped [where delta = "0.016" and st = initialScene and es = "[]"
      and keys = "\<lparr> up = False, down = False, left = False, right = False \<rparr>"]
  by (simp add: initialScene_def)

end
